theory Spec2Isabelle
  imports Main "HOL-Library.Word"
begin

section \<open>Go values shared by the two packages\<close>

text \<open>
  The repository holds two Go packages, \<^verbatim>\<open>mediadownloader\<close> and \<^verbatim>\<open>yttranscriptor\<close>.
  Names that both packages declare with different contents carry the prefix \<open>md_\<close> or
  \<open>yt_\<close>; declarations that are textually the same in both files (\<^verbatim>\<open>options\<close>,
  \<^verbatim>\<open>Option\<close>, \<^verbatim>\<open>WithHost\<close>, \<^verbatim>\<open>WithRateLimit\<close>, \<^verbatim>\<open>WithHttpClient\<close>, \<^verbatim>\<open>Client\<close>) are
  embedded once.

  A Go \<^verbatim>\<open>string\<close> is a sequence of bytes, as \<^typ>\<open>string\<close> is. A pointer \<^verbatim>\<open>*T\<close> is a
  \<^typ>\<open>'a option\<close> with \<^const>\<open>None\<close> for \<^verbatim>\<open>nil\<close>. A slice keeps the difference between
  \<^verbatim>\<open>nil\<close> and an empty slice.
\<close>

datatype 'a slice = nil | Slice "'a list"

fun elems :: "'a slice \<Rightarrow> 'a list" where
  "elems nil = []"
| "elems (Slice xs) = xs"

text \<open>
  An \<^verbatim>\<open>error\<close> value: \<^verbatim>\<open>fmt.Errorf\<close> without \<^verbatim>\<open>%w\<close> gives a plain message, with \<^verbatim>\<open>%w\<close> a
  message that wraps the error it was given. The errors of the libraries (\<^verbatim>\<open>net/url\<close>,
  \<^verbatim>\<open>net/http\<close>, \<^verbatim>\<open>io\<close>, \<^verbatim>\<open>encoding/json\<close>) are values of the same type.
\<close>

datatype error = errorString string | wrapError string error

fun Error :: "error \<Rightarrow> string" where
  "Error (errorString s) = s"
| "Error (wrapError msg err) = msg"

fun Unwrap :: "error \<Rightarrow> error option" where
  "Unwrap (errorString s) = None"
| "Unwrap (wrapError msg err) = Some err"

text \<open>\<^verbatim>\<open>fmt.Errorf(prefix + "%w", err)\<close> and \<^verbatim>\<open>fmt.Errorf(prefix + "%s", s)\<close>.\<close>

definition Errorf_w :: "string \<Rightarrow> error \<Rightarrow> error" where
  "Errorf_w prefix err = wrapError (prefix @ Error err) err"

definition Errorf_s :: "string \<Rightarrow> string \<Rightarrow> error" where
  "Errorf_s prefix s = errorString (prefix @ s)"

text \<open>
  A \<^verbatim>\<open>ratelimit.Limiter\<close> is an interface value: the \<^verbatim>\<open>nil\<close> interface (which
  \<^verbatim>\<open>WithRateLimit\<close> accepts like any other), one made by
  \<^verbatim>\<open>ratelimit.New(rate, ratelimit.Per(per))\<close> (\<open>per\<close> a \<^verbatim>\<open>time.Duration\<close>, in nanoseconds), or any
  other implementation, named by a handle. Calling \<^verbatim>\<open>Take\<close> on the \<^verbatim>\<open>nil\<close> interface panics.
  An \<^verbatim>\<open>http.Client\<close> is the one behind \<^verbatim>\<open>http.DefaultClient\<close> or one the caller made.
\<close>

datatype Limiter = Limiter_nil | ratelimit_New int int | Limiter_impl nat

definition time_Second :: int where
  "time_Second = 1000000000"

datatype http_Client = DefaultClient | Client_value nat

record request =
  Method :: string
  URL :: string
  Header :: "(string \<times> string) list"

text \<open>
  A response: its status code and what \<^verbatim>\<open>io.ReadAll\<close> gives on its body, the bytes or a
  read error.
\<close>

record response =
  StatusCode :: int
  Body :: "error + string"

definition http_StatusOK :: int where
  "http_StatusOK = 200"

text \<open>
  The collaborators are library code, so they are parameters: \<^verbatim>\<open>http.NewRequest\<close> (method,
  URL), \<^verbatim>\<open>Header.Add\<close> on the header of a request (key, value; \<^verbatim>\<open>net/http\<close> stores the value
  under the canonical form of the key), the transport behind \<^verbatim>\<open>(*http.Client).Do\<close>, and
  \<^verbatim>\<open>json.Unmarshal\<close> into the response schema \<open>'r\<close> of the package.
\<close>

record 'r env =
  http_NewRequest :: "string \<Rightarrow> string \<Rightarrow> error + request"
  Header_Add :: "string \<Rightarrow> string \<Rightarrow> request \<Rightarrow> request"
  client_Do :: "http_Client \<Rightarrow> request \<Rightarrow> error + response"
  json_Unmarshal :: "string \<Rightarrow> error + 'r"

section \<open>Construction: options, Option, New\<close>

record options =
  host :: string
  rateLimit :: "Limiter option"
  httpClient :: "http_Client option"

text \<open>
  An \<^verbatim>\<open>Option\<close> is a closure over the argument of the function that made it; the type
  \<^verbatim>\<open>options\<close> is not exported, so these three functions make all the options there are
  (a \<^verbatim>\<open>nil\<close> function value apart). Applying an option to \<^verbatim>\<open>*options\<close> returns the error and
  leaves the options as the closure wrote them. The pointers \<^verbatim>\<open>rateLimit\<close> and
  \<^verbatim>\<open>httpClient\<close> are \<^const>\<open>None\<close> until an option or \<^verbatim>\<open>New\<close> sets them.
\<close>

datatype Option = WithHost string | WithRateLimit Limiter | WithHttpClient http_Client

fun Option_apply :: "'r env \<Rightarrow> Option \<Rightarrow> options \<Rightarrow> error option \<times> options" where
  "Option_apply env (WithHost h) option =
     (case http_NewRequest env ''GET'' (''https://'' @ h) of
        Inl err \<Rightarrow> (Some (Errorf_w ''invalid host: '' err), option)
      | Inr _ \<Rightarrow> (None, option\<lparr>host := h\<rparr>))"
| "Option_apply env (WithRateLimit rl) option = (None, option\<lparr>rateLimit := Some rl\<rparr>)"
| "Option_apply env (WithHttpClient hc) option = (None, option\<lparr>httpClient := Some hc\<rparr>)"

text \<open>
  The loop \<^verbatim>\<open>for _, opt := range opts\<close> that all four functions start with: the error it
  returns with, the configuration as written so far, and the options it has called.
\<close>

fun range_opts :: "('o \<Rightarrow> 'c \<Rightarrow> error option \<times> 'c) \<Rightarrow> 'o list \<Rightarrow> 'c \<Rightarrow> error option \<times> 'c \<times> 'o list" where
  "range_opts ap [] cfg = (None, cfg, [])"
| "range_opts ap (opt # opts) cfg =
     (case ap opt cfg of
        (Some err, cfg') \<Rightarrow> (Some (Errorf_w ''bad option: '' err), cfg', [opt])
      | (None, cfg') \<Rightarrow>
          (case range_opts ap opts cfg' of (e, cfg'', called) \<Rightarrow> (e, cfg'', opt # called)))"

record Client =
  apiKey :: string
  options :: options

definition md_New :: "'r env \<Rightarrow> string \<Rightarrow> Option list \<Rightarrow> Client option \<times> error option" where
  "md_New env key opts =
     (case range_opts (Option_apply env) opts \<lparr>host = [], rateLimit = None, httpClient = None\<rparr> of
        (Some err, _) \<Rightarrow> (None, Some err)
      | (None, o0, _) \<Rightarrow>
          (let o1 = (if host o0 = [] then o0\<lparr>host := ''youtube-media-downloader.p.rapidapi.com''\<rparr> else o0);
               o2 = (if rateLimit o1 = None then o1\<lparr>rateLimit := Some (ratelimit_New 3 time_Second)\<rparr> else o1);
               o3 = (if httpClient o2 = None then o2\<lparr>httpClient := Some DefaultClient\<rparr> else o2)
           in (Some \<lparr>apiKey = key, options = o3\<rparr>, None)))"

definition yt_New :: "'r env \<Rightarrow> string \<Rightarrow> Option list \<Rightarrow> Client option \<times> error option" where
  "yt_New env key opts =
     (case range_opts (Option_apply env) opts \<lparr>host = [], rateLimit = None, httpClient = None\<rparr> of
        (Some err, _) \<Rightarrow> (None, Some err)
      | (None, o0, _) \<Rightarrow>
          (let o1 = (if host o0 = [] then o0\<lparr>host := ''youtube-transcriptor.p.rapidapi.com''\<rparr> else o0);
               o2 = (if rateLimit o1 = None then o1\<lparr>rateLimit := Some (ratelimit_New 10 time_Second)\<rparr> else o1);
               o3 = (if httpClient o2 = None then o2\<lparr>httpClient := Some DefaultClient\<rparr> else o2)
           in (Some \<lparr>apiKey = key, options = o3\<rparr>, None)))"

section \<open>The calls a request makes, and its outcome\<close>

text \<open>
  A call works on the \<^verbatim>\<open>Client\<close> its receiver points to and calls its collaborators. The
  world a call runs in holds that client and the calls made so far, in order: each option
  \<^verbatim>\<open>opt(o)\<close>, \<^verbatim>\<open>Take\<close> on the limiter, \<^verbatim>\<open>http.NewRequest\<close>, \<^verbatim>\<open>Header.Add\<close>, \<^verbatim>\<open>Do\<close>,
  \<^verbatim>\<open>io.ReadAll\<close>, \<^verbatim>\<open>json.Unmarshal\<close> and the deferred \<^verbatim>\<open>Body.Close\<close>. What happens inside a
  collaborator (the limiter's clock, the connections of the transport) is not part of it.
\<close>

datatype 'o event =
    Call_opt 'o
  | Call_Take Limiter
  | Call_NewRequest string string
  | Call_Header_Add string string
  | Call_Do http_Client request
  | Call_ReadAll
  | Call_Unmarshal string
  | Call_Close

record 'o world =
  self :: Client
  calls :: "'o event list"

definition call :: "'o event \<Rightarrow> 'o world \<Rightarrow> 'o world" where
  "call e w = w\<lparr>calls := calls w @ [e]\<rparr>"

text \<open>
  A function returns its results, or panics: on a \<^verbatim>\<open>nil\<close> pointer, or on a method of the
  \<^verbatim>\<open>nil\<close> interface.
\<close>

datatype 'a outcome = Return 'a | Panic

section \<open>Package yttranscriptor\<close>

record yt_Thumbnail =
  yt_URL :: string
  yt_Width :: "64 word"
  yt_Height :: "64 word"

text \<open>A \<^verbatim>\<open>float64\<close> is kept as its 64 bits.\<close>

record Transcription =
  Subtitle :: string
  Start :: "64 word"
  Dur :: "64 word"

record GetTranscriptResponse =
  yt_Title :: string
  Description :: string
  AvailableLangs :: "string slice"
  LengthInSeconds :: string
  yt_Thumbnails :: "yt_Thumbnail slice"
  Transcription :: "Transcription slice"

definition GetTranscriptResponse_String :: "GetTranscriptResponse \<Rightarrow> string" where
  "GetTranscriptResponse_String g =
     (let subtitles = foldl (\<lambda>subtitles t. subtitles @ (Subtitle t @ '' '')) [] (elems (Transcription g))
      in if length subtitles = 0 then []
         else take (length subtitles - 1) subtitles)"

text \<open>
  The full-text view in the words of the specification: the subtitle texts, one space
  between two of them, nothing after the last, and the empty string for no segment.
\<close>

fun join_by_space :: "string list \<Rightarrow> string" where
  "join_by_space [] = []"
| "join_by_space [s] = s"
| "join_by_space (s # s' # ss) = s @ '' '' @ join_by_space (s' # ss)"

definition hello_world :: GetTranscriptResponse where
  "hello_world =
     \<lparr>yt_Title = ''t'', Description = ''d'', AvailableLangs = Slice [''en''], LengthInSeconds = ''2'',
      yt_Thumbnails = nil,
      Transcription = Slice [\<lparr>Subtitle = ''Hello'', Start = 0, Dur = 1\<rparr>,
                             \<lparr>Subtitle = ''world'', Start = 1, Dur = 1\<rparr>]\<rparr>"

datatype getTranscriptOption = yt_WithLang string

record getTranscriptOptions =
  yt_lang :: string

fun getTranscriptOption_apply ::
  "getTranscriptOption \<Rightarrow> getTranscriptOptions \<Rightarrow> error option \<times> getTranscriptOptions" where
  "getTranscriptOption_apply (yt_WithLang l) option = (None, option\<lparr>yt_lang := l\<rparr>)"

text \<open>
  Lines 131 to 141 of \<^verbatim>\<open>GetTranscript\<close>: the request options \<^verbatim>\<open>o\<close> once the options are
  applied and the defaults are in, or the loop's error.
\<close>

definition GetTranscript_o ::
  "getTranscriptOption list \<Rightarrow> error option \<times> getTranscriptOptions \<times> getTranscriptOption list" where
  "GetTranscript_o opts =
     (case range_opts getTranscriptOption_apply opts \<lparr>yt_lang = []\<rparr> of
        (Some err, o0, called) \<Rightarrow> (Some err, o0, called)
      | (None, o0, called) \<Rightarrow>
          (None, (if yt_lang o0 = [] then o0\<lparr>yt_lang := ''en''\<rparr> else o0), called))"

definition GetTranscript ::
  "GetTranscriptResponse env \<Rightarrow> string \<Rightarrow> getTranscriptOption list \<Rightarrow> getTranscriptOption world
   \<Rightarrow> (GetTranscriptResponse option \<times> error option) outcome \<times> getTranscriptOption world" where
  "GetTranscript env videoID opts w0 =
     (case GetTranscript_o opts of (err, o1, called) \<Rightarrow>
      let w1 = w0\<lparr>calls := calls w0 @ map Call_opt called\<rparr> in
      case err of
        Some e \<Rightarrow> (Return (None, Some e), w1)
      | None \<Rightarrow>
          let url = ''https://'' @ host (options (self w1)) @ ''/transcript?video_id='' @ videoID
                    @ ''&lang='' @ yt_lang o1
          in case rateLimit (options (self w1)) of
               None \<Rightarrow> (Panic, w1)
             | Some rl \<Rightarrow>
                 if rl = Limiter_nil then (Panic, w1)
                 else
                 let w2 = call (Call_NewRequest ''GET'' url) (call (Call_Take rl) w1) in
                 case http_NewRequest env ''GET'' url of
                   Inl e \<Rightarrow> (Return (None, Some (Errorf_w ''failed to create request: '' e)), w2)
                 | Inr req \<Rightarrow>
                     let req1 = Header_Add env ''X-RapidAPI-Key'' (apiKey (self w2)) req;
                         w3 = call (Call_Header_Add ''X-RapidAPI-Key'' (apiKey (self w2))) w2;
                         req2 = Header_Add env ''X-RapidAPI-Host'' (host (options (self w3))) req1;
                         w4 = call (Call_Header_Add ''X-RapidAPI-Host'' (host (options (self w3)))) w3
                     in case httpClient (options (self w4)) of
                          None \<Rightarrow> (Panic, w4)
                        | Some hc \<Rightarrow>
                            let w5 = call (Call_Do hc req2) w4 in
                            case client_Do env hc req2 of
                              Inl e \<Rightarrow> (Return (None, Some (Errorf_w ''failed to execute request: '' e)), w5)
                            | Inr res \<Rightarrow>
                                let w6 = call Call_ReadAll w5 in
                                case Body res of
                                  Inl e \<Rightarrow>
                                    (Return (None, Some (Errorf_w ''failed to read response body: '' e)),
                                     call Call_Close w6)
                                | Inr body \<Rightarrow>
                                    if StatusCode res \<noteq> http_StatusOK
                                    then (Return (None, Some (Errorf_s ''http status code is not ok: '' body)),
                                          call Call_Close w6)
                                    else
                                      let w7 = call (Call_Unmarshal body) w6 in
                                      case json_Unmarshal env body of
                                        Inl e \<Rightarrow>
                                          (Return (None, Some (Errorf_w ''failed to unmarshal response: '' e)),
                                           call Call_Close w7)
                                      | Inr transcript \<Rightarrow>
                                          (Return (Some transcript, None), call Call_Close w7))"

section \<open>Package mediadownloader\<close>

type_synonym ContentType = string

definition ContentTypeVideos :: ContentType where
  "ContentTypeVideos = ''videos''"

definition ContentTypeShorts :: ContentType where
  "ContentTypeShorts = ''shorts''"

definition ContentTypeLive :: ContentType where
  "ContentTypeLive = ''live''"

definition ContentTypeUndefined :: ContentType where
  "ContentTypeUndefined = []"

datatype getChannelVideosOption = md_WithLang string | WithContentType ContentType

record getChannelVideosOptions =
  md_lang :: string
  contentType :: ContentType

fun getChannelVideosOption_apply ::
  "getChannelVideosOption \<Rightarrow> getChannelVideosOptions \<Rightarrow> error option \<times> getChannelVideosOptions" where
  "getChannelVideosOption_apply (md_WithLang l) option = (None, option\<lparr>md_lang := l\<rparr>)"
| "getChannelVideosOption_apply (WithContentType ct) option = (None, option\<lparr>contentType := ct\<rparr>)"

record md_Thumbnail =
  md_URL :: string
  md_Width :: "64 word"
  md_Height :: "64 word"
  Moving :: bool

record Video =
  Type :: string
  ID :: string
  md_Title :: string
  IsLiveNow :: bool
  LengthText :: string
  ViewCountText :: string
  PublishedTimeText :: string
  md_Thumbnails :: "md_Thumbnail slice"

record getChannelVideosResponse =
  Status :: bool
  NextToken :: string
  Items :: "Video slice"

text \<open>
  Lines 136 to 149 of \<^verbatim>\<open>GetChannelVideos\<close>: the request options \<^verbatim>\<open>o\<close> once the options are
  applied and the defaults are in, or the loop's error.
\<close>

definition GetChannelVideos_o ::
  "getChannelVideosOption list
   \<Rightarrow> error option \<times> getChannelVideosOptions \<times> getChannelVideosOption list" where
  "GetChannelVideos_o opts =
     (case range_opts getChannelVideosOption_apply opts \<lparr>md_lang = [], contentType = ContentTypeUndefined\<rparr> of
        (Some err, o0, called) \<Rightarrow> (Some err, o0, called)
      | (None, o0, called) \<Rightarrow>
          (let o1 = (if md_lang o0 = [] then o0\<lparr>md_lang := ''en''\<rparr> else o0);
               o2 = (if contentType o1 = ContentTypeUndefined
                     then o1\<lparr>contentType := ContentTypeVideos\<rparr> else o1)
           in (None, o2, called)))"

definition GetChannelVideos ::
  "getChannelVideosResponse env \<Rightarrow> string \<Rightarrow> getChannelVideosOption list
   \<Rightarrow> getChannelVideosOption world
   \<Rightarrow> (Video slice \<times> error option) outcome \<times> getChannelVideosOption world" where
  "GetChannelVideos env channelID opts w0 =
     (case GetChannelVideos_o opts of (err, o2, called) \<Rightarrow>
      let w1 = w0\<lparr>calls := calls w0 @ map Call_opt called\<rparr> in
      case err of
        Some e \<Rightarrow> (Return (nil, Some e), w1)
      | None \<Rightarrow>
          let url = ''https://'' @ host (options (self w1)) @ ''/v2/channel/videos?channelId='' @ channelID
                    @ ''&lang='' @ md_lang o2
          in case rateLimit (options (self w1)) of
               None \<Rightarrow> (Panic, w1)
             | Some rl \<Rightarrow>
                 if rl = Limiter_nil then (Panic, w1)
                 else
                 let w2 = call (Call_NewRequest ''GET'' url) (call (Call_Take rl) w1) in
                 case http_NewRequest env ''GET'' url of
                   Inl e \<Rightarrow> (Return (nil, Some (Errorf_w ''failed to create request: '' e)), w2)
                 | Inr req \<Rightarrow>
                     let req1 = Header_Add env ''X-RapidAPI-Key'' (apiKey (self w2)) req;
                         w3 = call (Call_Header_Add ''X-RapidAPI-Key'' (apiKey (self w2))) w2;
                         req2 = Header_Add env ''X-RapidAPI-Host'' (host (options (self w3))) req1;
                         w4 = call (Call_Header_Add ''X-RapidAPI-Host'' (host (options (self w3)))) w3
                     in case httpClient (options (self w4)) of
                          None \<Rightarrow> (Panic, w4)
                        | Some hc \<Rightarrow>
                            let w5 = call (Call_Do hc req2) w4 in
                            case client_Do env hc req2 of
                              Inl e \<Rightarrow> (Return (nil, Some (Errorf_w ''failed to execute request: '' e)), w5)
                            | Inr res \<Rightarrow>
                                let w6 = call Call_ReadAll w5 in
                                case Body res of
                                  Inl e \<Rightarrow>
                                    (Return (nil, Some (Errorf_w ''failed to read response body: '' e)),
                                     call Call_Close w6)
                                | Inr body \<Rightarrow>
                                    if StatusCode res \<noteq> http_StatusOK
                                    then (Return (nil, Some (Errorf_s ''http status code is not ok: '' body)),
                                          call Call_Close w6)
                                    else
                                      let w7 = call (Call_Unmarshal body) w6 in
                                      case json_Unmarshal env body of
                                        Inl e \<Rightarrow>
                                          (Return (nil, Some (Errorf_w ''failed to unmarshal response body: '' e)),
                                           call Call_Close w7)
                                      | Inr response \<Rightarrow>
                                          (Return (Items response, None), call Call_Close w7))"

section \<open>Notions the properties are stated with\<close>

text \<open>
  An option validates when applying it returns no error. For the three options that exist
  this does not depend on the configuration it is applied to (\<open>validates_cfg\<close> below).
  \<open>configure\<close> applies the options from left to right to the zero value \<^verbatim>\<open>&options{}\<close>.
\<close>

definition validates :: "'r env \<Rightarrow> Option \<Rightarrow> bool" where
  "validates env opt =
     (fst (Option_apply env opt \<lparr>host = [], rateLimit = None, httpClient = None\<rparr>) = None)"

definition configure :: "'r env \<Rightarrow> Option list \<Rightarrow> options" where
  "configure env opts =
     foldl (\<lambda>cfg opt. snd (Option_apply env opt cfg)) \<lparr>host = [], rateLimit = None, httpClient = None\<rparr> opts"

text \<open>The language code a call has in \<^verbatim>\<open>o.lang\<close> when it builds its URL.\<close>

definition md_request_lang :: "getChannelVideosOption list \<Rightarrow> string" where
  "md_request_lang opts = md_lang (fst (snd (GetChannelVideos_o opts)))"

definition yt_request_lang :: "getTranscriptOption list \<Rightarrow> string" where
  "yt_request_lang opts = yt_lang (fst (snd (GetTranscript_o opts)))"

text \<open>The steps of a call, numbered in the order the specification gives them.\<close>

fun stage :: "'o event \<Rightarrow> nat" where
  "stage (Call_opt _) = 0"
| "stage (Call_Take _) = 1"
| "stage (Call_NewRequest _ _) = 2"
| "stage (Call_Header_Add _ _) = 3"
| "stage (Call_Do _ _) = 4"
| "stage Call_ReadAll = 5"
| "stage (Call_Unmarshal _) = 6"
| "stage Call_Close = 7"

section \<open>A canned environment\<close>

text \<open>
  Concrete collaborators to run the functions on: \<^verbatim>\<open>http.NewRequest\<close> refuses a URL with a
  space in it, as \<^verbatim>\<open>net/url\<close> does for a space in the host; \<^verbatim>\<open>Header.Add\<close> appends the value
  under the canonical form of the key, known for the two keys the clients use; the
  transport answers every request with one canned status and body; the decoders know one
  body each.
\<close>

definition demo_NewRequest :: "string \<Rightarrow> string \<Rightarrow> error + request" where
  "demo_NewRequest method url =
     (if CHR '' '' \<in> set url
      then Inl (errorString (''parse '' @ url @ '': invalid character in host name''))
      else Inr \<lparr>Method = method, URL = url, Header = []\<rparr>)"

definition demo_Header_Add :: "string \<Rightarrow> string \<Rightarrow> request \<Rightarrow> request" where
  "demo_Header_Add key v req =
     req\<lparr>Header := Header req
            @ [(if key = ''X-RapidAPI-Key'' then ''X-Rapidapi-Key''
                else if key = ''X-RapidAPI-Host'' then ''X-Rapidapi-Host'' else key, v)]\<rparr>"

definition demo_video :: Video where
  \<open>demo_video = \<lparr>Type = ''video'', ID = ''v1'', md_Title = ''First'', IsLiveNow = False,
     LengthText = ''1:00'', ViewCountText = ''5 views'', PublishedTimeText = ''today'',
     md_Thumbnails = Slice [\<lparr>md_URL = ''u'', md_Width = 1, md_Height = 2, Moving = False\<rparr>]\<rparr>\<close>

definition md_demo_body :: string where
  \<open>md_demo_body = ''{"status":true,"nextToken":"n2","items":[{"id":"v1"}]}''\<close>

definition yt_demo_body :: string where
  \<open>yt_demo_body = ''{"transcription":[{"subtitle":"Hello"},{"subtitle":"world"}]}''\<close>

definition md_demo_Unmarshal :: "string \<Rightarrow> error + getChannelVideosResponse" where
  \<open>md_demo_Unmarshal body =
     (if body = md_demo_body
      then Inr \<lparr>Status = True, NextToken = ''n2'', Items = Slice [demo_video]\<rparr>
      else if body = ''{}'' then Inr \<lparr>Status = False, NextToken = [], Items = nil\<rparr>
      else Inl (errorString ''invalid character''))\<close>

definition yt_demo_Unmarshal :: "string \<Rightarrow> error + GetTranscriptResponse" where
  \<open>yt_demo_Unmarshal body =
     (if body = yt_demo_body
      then Inr hello_world
      else Inl (errorString ''invalid character''))\<close>

definition md_demo_env :: "int \<Rightarrow> string \<Rightarrow> getChannelVideosResponse env" where
  "md_demo_env status body =
     \<lparr>http_NewRequest = demo_NewRequest,
      Header_Add = demo_Header_Add,
      client_Do = (\<lambda>hc rq. Inr \<lparr>StatusCode = status, Body = Inr body\<rparr>),
      json_Unmarshal = md_demo_Unmarshal\<rparr>"

definition yt_demo_env :: "int \<Rightarrow> string \<Rightarrow> GetTranscriptResponse env" where
  "yt_demo_env status body =
     \<lparr>http_NewRequest = demo_NewRequest,
      Header_Add = demo_Header_Add,
      client_Do = (\<lambda>hc rq. Inr \<lparr>StatusCode = status, Body = Inr body\<rparr>),
      json_Unmarshal = yt_demo_Unmarshal\<rparr>"

definition md_demo_client :: Client where
  "md_demo_client =
     \<lparr>apiKey = ''key'',
      options = \<lparr>host = ''youtube-media-downloader.p.rapidapi.com'',
                 rateLimit = Some (ratelimit_New 3 time_Second), httpClient = Some DefaultClient\<rparr>\<rparr>"

definition yt_demo_client :: Client where
  "yt_demo_client =
     \<lparr>apiKey = ''key'',
      options = \<lparr>host = ''youtube-transcriptor.p.rapidapi.com'',
                 rateLimit = Some (ratelimit_New 10 time_Second), httpClient = Some DefaultClient\<rparr>\<rparr>"



definition md_demo_request :: request where
  "md_demo_request =
     \<lparr>Method = ''GET'',
      URL = ''https://youtube-media-downloader.p.rapidapi.com/v2/channel/videos?channelId=UC1&lang=en'',
      Header = [(''X-Rapidapi-Key'', ''key''),
                (''X-Rapidapi-Host'', ''youtube-media-downloader.p.rapidapi.com'')]\<rparr>"

definition yt_demo_request :: request where
  "yt_demo_request =
     \<lparr>Method = ''GET'',
      URL = ''https://youtube-transcriptor.p.rapidapi.com/transcript?video_id=v1&lang=en'',
      Header = [(''X-Rapidapi-Key'', ''key''),
                (''X-Rapidapi-Host'', ''youtube-transcriptor.p.rapidapi.com'')]\<rparr>"

section \<open>The full-text view of a transcript\<close>

lemma foldl_subtitles:
  "foldl (\<lambda>subtitles t. subtitles @ (Subtitle t @ '' '')) acc ts =
   acc @ concat (map (\<lambda>t. Subtitle t @ '' '') ts)"
  by (induction ts arbitrary: acc) simp_all

lemma butlast_spaced:
  "ts \<noteq> [] \<Longrightarrow> butlast (concat (map (\<lambda>t. Subtitle t @ '' '') ts)) = join_by_space (map Subtitle ts)"
proof (induction ts rule: induct_list012)
  case 1
  then show ?case by simp
next
  case (2 t)
  then show ?case by simp
next
  case (3 t t' ts)
  have "concat (map (\<lambda>t. Subtitle t @ '' '') (t' # ts)) \<noteq> []" by simp
  then show ?case using 3 by (simp add: butlast_append)
qed

text \<open>
  C1. For every list of segments, \<^verbatim>\<open>GetTranscriptResponse.String\<close> is the concatenation of
  the subtitle texts separated by one space with no trailing separator; it is the empty
  string for no segment (a \<^verbatim>\<open>nil\<close> or an empty slice), and \<open>Hello world\<close> for the two
  segments \<open>Hello\<close> and \<open>world\<close>.
\<close>

theorem String_join_by_space:
  "GetTranscriptResponse_String g = join_by_space (map Subtitle (elems (Transcription g)))
   \<and> GetTranscriptResponse_String (g\<lparr>Transcription := nil\<rparr>) = []
   \<and> GetTranscriptResponse_String (g\<lparr>Transcription := Slice []\<rparr>) = []
   \<and> GetTranscriptResponse_String hello_world = ''Hello world''"
proof -
  have main: "GetTranscriptResponse_String h = join_by_space (map Subtitle (elems (Transcription h)))" for h
  proof (cases "elems (Transcription h) = []")
    case True
    then show ?thesis by (simp add: GetTranscriptResponse_String_def)
  next
    case False
    define s where "s = concat (map (\<lambda>t. Subtitle t @ '' '') (elems (Transcription h)))"
    from False have ne: "s \<noteq> []"
      unfolding s_def by (cases "elems (Transcription h)") simp_all
    have "GetTranscriptResponse_String h = take (length s - 1) s"
      using ne by (simp add: GetTranscriptResponse_String_def foldl_subtitles s_def Let_def)
    also have "\<dots> = butlast s"
      by (simp add: butlast_conv_take)
    also have "\<dots> = join_by_space (map Subtitle (elems (Transcription h)))"
      unfolding s_def using False by (rule butlast_spaced)
    finally show ?thesis .
  qed
  show ?thesis
    by (simp add: main hello_world_def)
qed

section \<open>Auxiliary facts\<close>

lemma validates_cfg: "fst (Option_apply env opt cfg) = None \<longleftrightarrow> validates env opt"
  by (cases opt) (simp_all add: validates_def split: sum.splits)


lemma range_opts_all_ok:
  "(\<And>opt cfg. opt \<in> set opts \<Longrightarrow> fst (ap opt cfg) = None) \<Longrightarrow>
   range_opts ap opts cfg = (None, foldl (\<lambda>cfg opt. snd (ap opt cfg)) cfg opts, opts)"
proof (induction opts arbitrary: cfg)
  case Nil
  then show ?case by simp
next
  case (Cons opt opts)
  have "fst (ap opt cfg) = None" using Cons.prems by simp
  then obtain cfg' where a: "ap opt cfg = (None, cfg')" by (cases "ap opt cfg") simp
  have "range_opts ap opts cfg' = (None, foldl (\<lambda>cfg opt. snd (ap opt cfg)) cfg' opts, opts)"
    using Cons.prems by (intro Cons.IH) simp
  with a show ?case by simp
qed

lemma range_opts_first_bad:
  assumes "\<And>opt cfg. opt \<in> set pre \<Longrightarrow> fst (ap opt cfg) = None"
    and "ap bad (foldl (\<lambda>cfg opt. snd (ap opt cfg)) cfg pre) = (Some e, cfg')"
  shows "range_opts ap (pre @ bad # post) cfg = (Some (Errorf_w ''bad option: '' e), cfg', pre @ [bad])"
  using assms
proof (induction pre arbitrary: cfg)
  case Nil
  then show ?case by simp
next
  case (Cons opt pre)
  have "fst (ap opt cfg) = None" using Cons.prems(1) by simp
  then obtain cfg1 where a: "ap opt cfg = (None, cfg1)" by (cases "ap opt cfg") simp
  have "range_opts ap (pre @ bad # post) cfg1 = (Some (Errorf_w ''bad option: '' e), cfg', pre @ [bad])"
    using Cons.prems a by (intro Cons.IH) simp_all
  with a show ?case by simp
qed

lemma Option_apply_bad:
  "\<not> validates env bad \<Longrightarrow> \<exists>e. Option_apply env bad cfg = (Some e, cfg)"
  by (cases bad) (simp_all add: validates_def split: sum.splits)

lemma range_opts_valid:
  "list_all (validates env) opts \<Longrightarrow>
   range_opts (Option_apply env) opts \<lparr>host = [], rateLimit = None, httpClient = None\<rparr>
     = (None, configure env opts, opts)"
  unfolding configure_def
  by (rule range_opts_all_ok) (simp add: validates_cfg list_all_iff)

lemma range_opts_invalid:
  assumes "list_all (validates env) pre" and "\<not> validates env bad"
  shows "\<exists>e. fst (Option_apply env bad (configure env pre)) = Some e \<and>
     range_opts (Option_apply env) (pre @ bad # post) \<lparr>host = [], rateLimit = None, httpClient = None\<rparr>
       = (Some (wrapError (''bad option: '' @ Error e) e), configure env pre, pre @ [bad])"
proof -
  obtain e where e: "Option_apply env bad (configure env pre) = (Some e, configure env pre)"
    using Option_apply_bad [OF assms(2)] by blast
  have "range_opts (Option_apply env) (pre @ bad # post) \<lparr>host = [], rateLimit = None, httpClient = None\<rparr>
      = (Some (Errorf_w ''bad option: '' e), configure env pre, pre @ [bad])"
    using assms(1) e unfolding configure_def
    by (intro range_opts_first_bad) (simp_all add: validates_cfg list_all_iff)
  with e show ?thesis by (auto simp: Errorf_w_def)
qed

lemma split_first_invalid:
  "\<not> list_all P xs \<Longrightarrow> \<exists>pre bad post. xs = pre @ bad # post \<and> list_all P pre \<and> \<not> P bad"
proof (induction xs)
  case Nil
  then show ?case by simp
next
  case (Cons x xs)
  show ?case
  proof (cases "P x")
    case False
    then have "x # xs = [] @ x # xs \<and> list_all P [] \<and> \<not> P x" by simp
    then show ?thesis by blast
  next
    case True
    with Cons.prems have "\<not> list_all P xs" by simp
    then obtain pre bad post where "xs = pre @ bad # post" "list_all P pre" "\<not> P bad"
      using Cons.IH by blast
    with True have "x # xs = (x # pre) @ bad # post \<and> list_all P (x # pre) \<and> \<not> P bad" by simp
    then show ?thesis by blast
  qed
qed

lemma md_New_valid:
  assumes "list_all (validates env) opts"
  shows "\<exists>c. md_New env key opts = (Some c, None) \<and> apiKey c = key
     \<and> host (options c) = (if host (configure env opts) = [] then ''youtube-media-downloader.p.rapidapi.com''
                             else host (configure env opts))
     \<and> rateLimit (options c) = (if rateLimit (configure env opts) = None then Some (ratelimit_New 3 time_Second)
                                  else rateLimit (configure env opts))
     \<and> httpClient (options c) = (if httpClient (configure env opts) = None then Some DefaultClient
                                   else httpClient (configure env opts))"
  by (simp add: md_New_def range_opts_valid [OF assms] Let_def)

lemma yt_New_valid:
  assumes "list_all (validates env) opts"
  shows "\<exists>c. yt_New env key opts = (Some c, None) \<and> apiKey c = key
     \<and> host (options c) = (if host (configure env opts) = [] then ''youtube-transcriptor.p.rapidapi.com''
                             else host (configure env opts))
     \<and> rateLimit (options c) = (if rateLimit (configure env opts) = None then Some (ratelimit_New 10 time_Second)
                                  else rateLimit (configure env opts))
     \<and> httpClient (options c) = (if httpClient (configure env opts) = None then Some DefaultClient
                                   else httpClient (configure env opts))"
  by (simp add: yt_New_def range_opts_valid [OF assms] Let_def)

lemma New_invalid:
  assumes "list_all (validates env) pre" and "\<not> validates env bad"
  shows "\<exists>e. fst (Option_apply env bad (configure env pre)) = Some e
     \<and> md_New env key (pre @ bad # post) = (None, Some (wrapError (''bad option: '' @ Error e) e))
     \<and> yt_New env key (pre @ bad # post) = (None, Some (wrapError (''bad option: '' @ Error e) e))
     \<and> range_opts (Option_apply env) (pre @ bad # post) \<lparr>host = [], rateLimit = None, httpClient = None\<rparr>
         = (Some (wrapError (''bad option: '' @ Error e) e), configure env pre, pre @ [bad])"
proof -
  obtain e where e: "fst (Option_apply env bad (configure env pre)) = Some e"
    and r: "range_opts (Option_apply env) (pre @ bad # post) \<lparr>host = [], rateLimit = None, httpClient = None\<rparr>
       = (Some (wrapError (''bad option: '' @ Error e) e), configure env pre, pre @ [bad])"
    using range_opts_invalid [OF assms] by blast
  show ?thesis
    using e r by (simp add: md_New_def yt_New_def)
qed

lemma md_New_succeeds_iff:
  "(\<exists>c. md_New env key opts = (Some c, None)) \<longleftrightarrow> list_all (validates env) opts"
proof
  assume ok: "\<exists>c. md_New env key opts = (Some c, None)"
  show "list_all (validates env) opts"
  proof (rule ccontr)
    assume "\<not> list_all (validates env) opts"
    then obtain pre bad post where "opts = pre @ bad # post" "list_all (validates env) pre"
      "\<not> validates env bad"
      using split_first_invalid by blast
    then show False using New_invalid [of env pre bad key post] ok by auto
  qed
next
  assume "list_all (validates env) opts"
  then show "\<exists>c. md_New env key opts = (Some c, None)"
    using md_New_valid [of env opts key] by blast
qed

lemma yt_New_succeeds_iff:
  "(\<exists>c. yt_New env key opts = (Some c, None)) \<longleftrightarrow> list_all (validates env) opts"
proof
  assume ok: "\<exists>c. yt_New env key opts = (Some c, None)"
  show "list_all (validates env) opts"
  proof (rule ccontr)
    assume "\<not> list_all (validates env) opts"
    then obtain pre bad post where "opts = pre @ bad # post" "list_all (validates env) pre"
      "\<not> validates env bad"
      using split_first_invalid by blast
    then show False using New_invalid [of env pre bad key post] ok by auto
  qed
next
  assume "list_all (validates env) opts"
  then show "\<exists>c. yt_New env key opts = (Some c, None)"
    using yt_New_valid [of env opts key] by blast
qed

lemma md_New_configured:
  "md_New env key opts = (Some c, None) \<Longrightarrow>
   \<exists>rl hc. rateLimit (options c) = Some rl \<and> httpClient (options c) = Some hc"
  by (auto simp: md_New_def Let_def split: prod.splits option.splits)

lemma yt_New_configured:
  "yt_New env key opts = (Some c, None) \<Longrightarrow>
   \<exists>rl hc. rateLimit (options c) = Some rl \<and> httpClient (options c) = Some hc"
  by (auto simp: yt_New_def Let_def split: prod.splits option.splits)


lemma configure_keeps_host:
  "(\<And>h. WithHost h \<notin> set opts) \<Longrightarrow>
   host (foldl (\<lambda>cfg opt. snd (Option_apply env opt cfg)) cfg opts) = host cfg"
proof (induction opts arbitrary: cfg)
  case Nil
  then show ?case by simp
next
  case (Cons opt opts)
  have "host (snd (Option_apply env opt cfg)) = host cfg"
    using Cons.prems [of "case opt of WithHost h \<Rightarrow> h | _ \<Rightarrow> []"] by (cases opt) simp_all
  moreover have "host (foldl (\<lambda>cfg opt. snd (Option_apply env opt cfg)) (snd (Option_apply env opt cfg)) opts)
      = host (snd (Option_apply env opt cfg))"
    using Cons.prems by (intro Cons.IH) auto
  ultimately show ?case by simp
qed

lemma configure_keeps_rateLimit:
  "(\<And>rl. WithRateLimit rl \<notin> set opts) \<Longrightarrow>
   rateLimit (foldl (\<lambda>cfg opt. snd (Option_apply env opt cfg)) cfg opts) = rateLimit cfg"
proof (induction opts arbitrary: cfg)
  case Nil
  then show ?case by simp
next
  case (Cons opt opts)
  have "rateLimit (snd (Option_apply env opt cfg)) = rateLimit cfg"
    using Cons.prems [of "case opt of WithRateLimit rl \<Rightarrow> rl | _ \<Rightarrow> undefined"]
    by (cases opt) (simp_all split: sum.splits)
  moreover have "rateLimit (foldl (\<lambda>cfg opt. snd (Option_apply env opt cfg)) (snd (Option_apply env opt cfg)) opts)
      = rateLimit (snd (Option_apply env opt cfg))"
    using Cons.prems by (intro Cons.IH) auto
  ultimately show ?case by simp
qed

lemma configure_keeps_httpClient:
  "(\<And>hc. WithHttpClient hc \<notin> set opts) \<Longrightarrow>
   httpClient (foldl (\<lambda>cfg opt. snd (Option_apply env opt cfg)) cfg opts) = httpClient cfg"
proof (induction opts arbitrary: cfg)
  case Nil
  then show ?case by simp
next
  case (Cons opt opts)
  have "httpClient (snd (Option_apply env opt cfg)) = httpClient cfg"
    using Cons.prems [of "case opt of WithHttpClient hc \<Rightarrow> hc | _ \<Rightarrow> undefined"]
    by (cases opt) (simp_all split: sum.splits)
  moreover have "httpClient (foldl (\<lambda>cfg opt. snd (Option_apply env opt cfg)) (snd (Option_apply env opt cfg)) opts)
      = httpClient (snd (Option_apply env opt cfg))"
    using Cons.prems by (intro Cons.IH) auto
  ultimately show ?case by simp
qed

lemma md_New_defaults:
  assumes "md_New env key opts = (Some c, None)"
  shows "((\<forall>h. WithHost h \<notin> set opts) \<longrightarrow> host (options c) = ''youtube-media-downloader.p.rapidapi.com'')
    \<and> ((\<forall>rl. WithRateLimit rl \<notin> set opts) \<longrightarrow> rateLimit (options c) = Some (ratelimit_New 3 time_Second))
    \<and> ((\<forall>hc. WithHttpClient hc \<notin> set opts) \<longrightarrow> httpClient (options c) = Some DefaultClient)"
proof -
  have v: "list_all (validates env) opts"
    using assms md_New_succeeds_iff [of env key opts] by blast
  have h: "(\<forall>h. WithHost h \<notin> set opts) \<longrightarrow> host (configure env opts) = []"
    unfolding configure_def using configure_keeps_host [of opts env] by simp
  have r: "(\<forall>rl. WithRateLimit rl \<notin> set opts) \<longrightarrow> rateLimit (configure env opts) = None"
    unfolding configure_def using configure_keeps_rateLimit [of opts env] by simp
  have t: "(\<forall>hc. WithHttpClient hc \<notin> set opts) \<longrightarrow> httpClient (configure env opts) = None"
    unfolding configure_def using configure_keeps_httpClient [of opts env] by simp
  from md_New_valid [OF v, of key] assms h r t show ?thesis by auto
qed

lemma yt_New_defaults:
  assumes "yt_New env key opts = (Some c, None)"
  shows "((\<forall>h. WithHost h \<notin> set opts) \<longrightarrow> host (options c) = ''youtube-transcriptor.p.rapidapi.com'')
    \<and> ((\<forall>rl. WithRateLimit rl \<notin> set opts) \<longrightarrow> rateLimit (options c) = Some (ratelimit_New 10 time_Second))
    \<and> ((\<forall>hc. WithHttpClient hc \<notin> set opts) \<longrightarrow> httpClient (options c) = Some DefaultClient)"
proof -
  have v: "list_all (validates env) opts"
    using assms yt_New_succeeds_iff [of env key opts] by blast
  have h: "(\<forall>h. WithHost h \<notin> set opts) \<longrightarrow> host (configure env opts) = []"
    unfolding configure_def using configure_keeps_host [of opts env] by simp
  have r: "(\<forall>rl. WithRateLimit rl \<notin> set opts) \<longrightarrow> rateLimit (configure env opts) = None"
    unfolding configure_def using configure_keeps_rateLimit [of opts env] by simp
  have t: "(\<forall>hc. WithHttpClient hc \<notin> set opts) \<longrightarrow> httpClient (configure env opts) = None"
    unfolding configure_def using configure_keeps_httpClient [of opts env] by simp
  from yt_New_valid [OF v, of key] assms h r t show ?thesis by auto
qed

lemma md_range_opts:
  "range_opts getChannelVideosOption_apply opts cfg
     = (None, foldl (\<lambda>cfg opt. snd (getChannelVideosOption_apply opt cfg)) cfg opts, opts)"
proof (rule range_opts_all_ok)
  fix opt cfg
  show "fst (getChannelVideosOption_apply opt cfg) = None" by (cases opt) simp_all
qed

lemma yt_range_opts:
  "range_opts getTranscriptOption_apply opts cfg
     = (None, foldl (\<lambda>cfg opt. snd (getTranscriptOption_apply opt cfg)) cfg opts, opts)"
proof (rule range_opts_all_ok)
  fix opt cfg
  show "fst (getTranscriptOption_apply opt cfg) = None" by (cases opt) simp_all
qed

lemma GetChannelVideos_o_eq:
  "GetChannelVideos_o opts = (None, fst (snd (GetChannelVideos_o opts)), opts)"
  by (simp add: GetChannelVideos_o_def md_range_opts Let_def)

lemma GetTranscript_o_eq:
  "GetTranscript_o opts = (None, fst (snd (GetTranscript_o opts)), opts)"
  by (simp add: GetTranscript_o_def yt_range_opts)

lemma md_fold_keeps_lang:
  "(\<And>l. md_WithLang l \<notin> set opts) \<Longrightarrow>
   md_lang (foldl (\<lambda>cfg opt. snd (getChannelVideosOption_apply opt cfg)) cfg opts) = md_lang cfg"
proof (induction opts arbitrary: cfg)
  case Nil
  then show ?case by simp
next
  case (Cons opt opts)
  obtain ct where "opt = WithContentType ct"
    using Cons.prems by (cases opt) auto
  then show ?case using Cons.IH Cons.prems by auto
qed

lemma md_fold_keeps_contentType:
  "(\<And>ct. WithContentType ct \<notin> set opts) \<Longrightarrow>
   contentType (foldl (\<lambda>cfg opt. snd (getChannelVideosOption_apply opt cfg)) cfg opts) = contentType cfg"
proof (induction opts arbitrary: cfg)
  case Nil
  then show ?case by simp
next
  case (Cons opt opts)
  obtain l where "opt = md_WithLang l"
    using Cons.prems by (cases opt) auto
  then show ?case using Cons.IH Cons.prems by auto
qed

lemma md_request_lang_default:
  "(\<And>l. md_WithLang l \<notin> set opts) \<Longrightarrow> md_request_lang opts = ''en''"
  by (simp add: md_request_lang_def GetChannelVideos_o_def md_range_opts Let_def md_fold_keeps_lang)

lemma md_contentType_default:
  "(\<And>ct. WithContentType ct \<notin> set opts) \<Longrightarrow>
   contentType (fst (snd (GetChannelVideos_o opts))) = ContentTypeVideos"
  by (simp add: GetChannelVideos_o_def md_range_opts Let_def md_fold_keeps_contentType
      ContentTypeUndefined_def)

lemma md_request_lang_last:
  "(\<And>l. md_WithLang l \<notin> set post) \<Longrightarrow>
   md_request_lang (pre @ md_WithLang lang # post) = (if lang = [] then ''en'' else lang)"
  by (simp add: md_request_lang_def GetChannelVideos_o_def md_range_opts Let_def md_fold_keeps_lang)

lemma yt_request_lang_Nil: "yt_request_lang [] = ''en''"
  by (simp add: yt_request_lang_def GetTranscript_o_def)

lemma yt_request_lang_last:
  "yt_request_lang (pre @ [yt_WithLang lang]) = (if lang = [] then ''en'' else lang)"
  by (simp add: yt_request_lang_def GetTranscript_o_def yt_range_opts)


lemma sorted_after_opts:
  "sorted (map stage (map Call_opt opts @ tr)) = sorted (map stage tr)"
  by (induction opts) simp_all

lemma Do_after_Take:
  assumes "sorted (map stage tr)" and "n < length tr" and "tr ! n = Call_Take rl"
    and "i < length tr" and "tr ! i = Call_Do hc rq"
  shows "n < i"
proof (rule ccontr)
  assume "\<not> n < i"
  then have "i \<le> n" by simp
  then have "map stage tr ! i \<le> map stage tr ! n"
    using assms(1,2) by (simp add: sorted_iff_nth_mono del: nth_map)
  then show False using assms by simp
qed

lemma md_calls_shape:
  assumes "rateLimit (options c) = Some rl" and "rl \<noteq> Limiter_nil"
  shows "\<exists>rest. calls (snd (GetChannelVideos env channelID opts \<lparr>self = c, calls = []\<rparr>))
      = map Call_opt opts @ Call_Take rl
        # Call_NewRequest ''GET'' (''https://'' @ host (options c) @ ''/v2/channel/videos?channelId=''
            @ channelID @ ''&lang='' @ md_request_lang opts) # rest
      \<and> sorted (map stage rest) \<and> (\<forall>e \<in> set rest. 3 \<le> stage e)"
  unfolding GetChannelVideos_def md_request_lang_def
  apply (subst GetChannelVideos_o_eq)
  using assms
  by (simp add: Let_def call_def split: option.splits sum.splits)

lemma yt_calls_shape:
  assumes "rateLimit (options c) = Some rl" and "rl \<noteq> Limiter_nil"
  shows "\<exists>rest. calls (snd (GetTranscript env videoID opts \<lparr>self = c, calls = []\<rparr>))
      = map Call_opt opts @ Call_Take rl
        # Call_NewRequest ''GET'' (''https://'' @ host (options c) @ ''/transcript?video_id=''
            @ videoID @ ''&lang='' @ yt_request_lang opts) # rest
      \<and> sorted (map stage rest) \<and> (\<forall>e \<in> set rest. 3 \<le> stage e)"
  unfolding GetTranscript_def yt_request_lang_def
  apply (subst GetTranscript_o_eq)
  using assms
  by (simp add: Let_def call_def split: option.splits sum.splits)

lemma md_calls_panic:
  assumes "rateLimit (options c) = None \<or> rateLimit (options c) = Some Limiter_nil"
  shows "GetChannelVideos env channelID opts \<lparr>self = c, calls = cs\<rparr>
      = (Panic, \<lparr>self = c, calls = cs @ map Call_opt opts\<rparr>)"
  unfolding GetChannelVideos_def
  apply (subst GetChannelVideos_o_eq)
  using assms
  by (auto simp: Let_def)

lemma yt_calls_panic:
  assumes "rateLimit (options c) = None \<or> rateLimit (options c) = Some Limiter_nil"
  shows "GetTranscript env videoID opts \<lparr>self = c, calls = cs\<rparr>
      = (Panic, \<lparr>self = c, calls = cs @ map Call_opt opts\<rparr>)"
  unfolding GetTranscript_def
  apply (subst GetTranscript_o_eq)
  using assms
  by (auto simp: Let_def)

lemma md_sorted_calls:
  "sorted (map stage (calls (snd (GetChannelVideos env channelID opts \<lparr>self = c, calls = []\<rparr>))))"
proof (cases "rateLimit (options c) = None \<or> rateLimit (options c) = Some Limiter_nil")
  case True
  show ?thesis
    using sorted_after_opts [of opts "[]"] by (simp add: md_calls_panic [OF True])
next
  case False
  then obtain rl where rl: "rateLimit (options c) = Some rl" "rl \<noteq> Limiter_nil" by auto
  obtain rest where shape: "calls (snd (GetChannelVideos env channelID opts \<lparr>self = c, calls = []\<rparr>))
      = map Call_opt opts @ Call_Take rl
        # Call_NewRequest ''GET'' (''https://'' @ host (options c) @ ''/v2/channel/videos?channelId=''
            @ channelID @ ''&lang='' @ md_request_lang opts) # rest"
    and srt: "sorted (map stage rest)" and late: "\<forall>e \<in> set rest. 3 \<le> stage e"
    using md_calls_shape [OF rl, of env channelID opts] by blast
  have "sorted (map stage (Call_Take rl # Call_NewRequest ''GET'' URL # rest))" for URL
    using srt late by auto
  then show ?thesis
    unfolding shape by (simp only: sorted_after_opts)
qed

lemma yt_sorted_calls:
  "sorted (map stage (calls (snd (GetTranscript env videoID opts \<lparr>self = c, calls = []\<rparr>))))"
proof (cases "rateLimit (options c) = None \<or> rateLimit (options c) = Some Limiter_nil")
  case True
  show ?thesis
    using sorted_after_opts [of opts "[]"] by (simp add: yt_calls_panic [OF True])
next
  case False
  then obtain rl where rl: "rateLimit (options c) = Some rl" "rl \<noteq> Limiter_nil" by auto
  obtain rest where shape: "calls (snd (GetTranscript env videoID opts \<lparr>self = c, calls = []\<rparr>))
      = map Call_opt opts @ Call_Take rl
        # Call_NewRequest ''GET'' (''https://'' @ host (options c) @ ''/transcript?video_id=''
            @ videoID @ ''&lang='' @ yt_request_lang opts) # rest"
    and srt: "sorted (map stage rest)" and late: "\<forall>e \<in> set rest. 3 \<le> stage e"
    using yt_calls_shape [OF rl, of env videoID opts] by blast
  have "sorted (map stage (Call_Take rl # Call_NewRequest ''GET'' URL # rest))" for URL
    using srt late by auto
  then show ?thesis
    unfolding shape by (simp only: sorted_after_opts)
qed

lemma md_Do_needs_Take:
  assumes "i < length (calls (snd (GetChannelVideos env channelID opts \<lparr>self = c, calls = []\<rparr>)))"
    and "calls (snd (GetChannelVideos env channelID opts \<lparr>self = c, calls = []\<rparr>)) ! i = Call_Do hc rq"
  shows "\<exists>rl. rateLimit (options c) = Some rl \<and> rl \<noteq> Limiter_nil \<and> length opts < i
     \<and> calls (snd (GetChannelVideos env channelID opts \<lparr>self = c, calls = []\<rparr>)) ! length opts = Call_Take rl"
proof (cases "rateLimit (options c) = None \<or> rateLimit (options c) = Some Limiter_nil")
  case True
  with assms show ?thesis by (simp add: md_calls_panic [OF True])
next
  case False
  then obtain rl where rl: "rateLimit (options c) = Some rl" "rl \<noteq> Limiter_nil" by auto
  let ?tr = "calls (snd (GetChannelVideos env channelID opts \<lparr>self = c, calls = []\<rparr>))"
  obtain rest where shape: "?tr = map Call_opt opts @ Call_Take rl
        # Call_NewRequest ''GET'' (''https://'' @ host (options c) @ ''/v2/channel/videos?channelId=''
            @ channelID @ ''&lang='' @ md_request_lang opts) # rest"
    using md_calls_shape [OF rl, of env channelID opts] by blast
  have take: "length opts < length ?tr" "?tr ! length opts = Call_Take rl"
    by (simp_all add: shape nth_append)
  have "length opts < i"
    using Do_after_Take [OF md_sorted_calls take assms] .
  with rl take show ?thesis by blast
qed

lemma yt_Do_needs_Take:
  assumes "i < length (calls (snd (GetTranscript env videoID opts \<lparr>self = c, calls = []\<rparr>)))"
    and "calls (snd (GetTranscript env videoID opts \<lparr>self = c, calls = []\<rparr>)) ! i = Call_Do hc rq"
  shows "\<exists>rl. rateLimit (options c) = Some rl \<and> rl \<noteq> Limiter_nil \<and> length opts < i
     \<and> calls (snd (GetTranscript env videoID opts \<lparr>self = c, calls = []\<rparr>)) ! length opts = Call_Take rl"
proof (cases "rateLimit (options c) = None \<or> rateLimit (options c) = Some Limiter_nil")
  case True
  with assms show ?thesis by (simp add: yt_calls_panic [OF True])
next
  case False
  then obtain rl where rl: "rateLimit (options c) = Some rl" "rl \<noteq> Limiter_nil" by auto
  let ?tr = "calls (snd (GetTranscript env videoID opts \<lparr>self = c, calls = []\<rparr>))"
  obtain rest where shape: "?tr = map Call_opt opts @ Call_Take rl
        # Call_NewRequest ''GET'' (''https://'' @ host (options c) @ ''/transcript?video_id=''
            @ videoID @ ''&lang='' @ yt_request_lang opts) # rest"
    using yt_calls_shape [OF rl, of env videoID opts] by blast
  have take: "length opts < length ?tr" "?tr ! length opts = Call_Take rl"
    by (simp_all add: shape nth_append)
  have "length opts < i"
    using Do_after_Take [OF yt_sorted_calls take assms] .
  with rl take show ?thesis by blast
qed

lemma md_calls_exact:
  assumes "rateLimit (options c) = Some rl" and "rl \<noteq> Limiter_nil"
    and tr: "tr = calls (snd (GetChannelVideos env channelID opts \<lparr>self = c, calls = []\<rparr>))"
    and url: "url = ''https://'' @ host (options c) @ ''/v2/channel/videos?channelId='' @ channelID
                  @ ''&lang='' @ md_request_lang opts"
  shows "(case http_NewRequest env ''GET'' url of
            Inl e \<Rightarrow> tr = map Call_opt opts @ [Call_Take rl, Call_NewRequest ''GET'' url]
          | Inr req \<Rightarrow>
              (case httpClient (options c) of
                 None \<Rightarrow> tr = map Call_opt opts
                     @ [Call_Take rl, Call_NewRequest ''GET'' url,
                        Call_Header_Add ''X-RapidAPI-Key'' (apiKey c),
                        Call_Header_Add ''X-RapidAPI-Host'' (host (options c))]
               | Some hc \<Rightarrow>
                   (let rq = Header_Add env ''X-RapidAPI-Host'' (host (options c))
                               (Header_Add env ''X-RapidAPI-Key'' (apiKey c) req);
                        sent = map Call_opt opts
                          @ [Call_Take rl, Call_NewRequest ''GET'' url,
                             Call_Header_Add ''X-RapidAPI-Key'' (apiKey c),
                             Call_Header_Add ''X-RapidAPI-Host'' (host (options c)),
                             Call_Do hc rq]
                    in case client_Do env hc rq of
                         Inl e \<Rightarrow> tr = sent
                       | Inr res \<Rightarrow>
                           (case Body res of
                              Inl e \<Rightarrow> tr = sent @ [Call_ReadAll, Call_Close]
                            | Inr body \<Rightarrow>
                                if StatusCode res = 200
                                then tr = sent @ [Call_ReadAll, Call_Unmarshal body, Call_Close]
                                else tr = sent @ [Call_ReadAll, Call_Close]))))"
proof -
  obtain o2 where o: "GetChannelVideos_o opts = (None, o2, opts)"
    using GetChannelVideos_o_eq [of opts] by blast
  have l: "md_request_lang opts = md_lang o2"
    by (simp add: md_request_lang_def o)
  show ?thesis
    unfolding tr url l GetChannelVideos_def using assms(1,2)
    by (simp add: o Let_def call_def http_StatusOK_def split: option.splits sum.splits)
qed

lemma yt_calls_exact:
  assumes "rateLimit (options c) = Some rl" and "rl \<noteq> Limiter_nil"
    and tr: "tr = calls (snd (GetTranscript env videoID opts \<lparr>self = c, calls = []\<rparr>))"
    and url: "url = ''https://'' @ host (options c) @ ''/transcript?video_id='' @ videoID
                  @ ''&lang='' @ yt_request_lang opts"
  shows "(case http_NewRequest env ''GET'' url of
            Inl e \<Rightarrow> tr = map Call_opt opts @ [Call_Take rl, Call_NewRequest ''GET'' url]
          | Inr req \<Rightarrow>
              (case httpClient (options c) of
                 None \<Rightarrow> tr = map Call_opt opts
                     @ [Call_Take rl, Call_NewRequest ''GET'' url,
                        Call_Header_Add ''X-RapidAPI-Key'' (apiKey c),
                        Call_Header_Add ''X-RapidAPI-Host'' (host (options c))]
               | Some hc \<Rightarrow>
                   (let rq = Header_Add env ''X-RapidAPI-Host'' (host (options c))
                               (Header_Add env ''X-RapidAPI-Key'' (apiKey c) req);
                        sent = map Call_opt opts
                          @ [Call_Take rl, Call_NewRequest ''GET'' url,
                             Call_Header_Add ''X-RapidAPI-Key'' (apiKey c),
                             Call_Header_Add ''X-RapidAPI-Host'' (host (options c)),
                             Call_Do hc rq]
                    in case client_Do env hc rq of
                         Inl e \<Rightarrow> tr = sent
                       | Inr res \<Rightarrow>
                           (case Body res of
                              Inl e \<Rightarrow> tr = sent @ [Call_ReadAll, Call_Close]
                            | Inr body \<Rightarrow>
                                if StatusCode res = 200
                                then tr = sent @ [Call_ReadAll, Call_Unmarshal body, Call_Close]
                                else tr = sent @ [Call_ReadAll, Call_Close]))))"
proof -
  obtain o1 where o: "GetTranscript_o opts = (None, o1, opts)"
    using GetTranscript_o_eq [of opts] by blast
  have l: "yt_request_lang opts = yt_lang o1"
    by (simp add: yt_request_lang_def o)
  show ?thesis
    unfolding tr url l GetTranscript_def using assms(1,2)
    by (simp add: o Let_def call_def http_StatusOK_def split: option.splits sum.splits)
qed

lemma md_Unmarshal_after_200:
  assumes "Call_Unmarshal body \<in> set (calls (snd (GetChannelVideos env channelID opts \<lparr>self = c, calls = []\<rparr>)))"
  shows "\<exists>hc rq res. Call_Do hc rq \<in> set (calls (snd (GetChannelVideos env channelID opts \<lparr>self = c, calls = []\<rparr>)))
     \<and> client_Do env hc rq = Inr res \<and> StatusCode res = 200 \<and> Body res = Inr body"
  using assms unfolding GetChannelVideos_def
  by (auto simp: Let_def call_def http_StatusOK_def split: prod.splits option.splits sum.splits if_splits)

lemma yt_Unmarshal_after_200:
  assumes "Call_Unmarshal body \<in> set (calls (snd (GetTranscript env videoID opts \<lparr>self = c, calls = []\<rparr>)))"
  shows "\<exists>hc rq res. Call_Do hc rq \<in> set (calls (snd (GetTranscript env videoID opts \<lparr>self = c, calls = []\<rparr>)))
     \<and> client_Do env hc rq = Inr res \<and> StatusCode res = 200 \<and> Body res = Inr body"
  using assms unfolding GetTranscript_def
  by (auto simp: Let_def call_def http_StatusOK_def split: prod.splits option.splits sum.splits if_splits)

lemma md_self_unchanged:
  "self (snd (GetChannelVideos env channelID opts w)) = self w"
  unfolding GetChannelVideos_def
  by (simp add: Let_def call_def split: prod.splits option.splits sum.splits)

lemma yt_self_unchanged:
  "self (snd (GetTranscript env videoID opts w)) = self w"
  unfolding GetTranscript_def
  by (simp add: Let_def call_def split: prod.splits option.splits sum.splits)





lemma configure_rateLimit_not_nil:
  "WithRateLimit Limiter_nil \<notin> set opts \<Longrightarrow> rateLimit cfg \<noteq> Some Limiter_nil \<Longrightarrow>
   rateLimit (foldl (\<lambda>cfg opt. snd (Option_apply env opt cfg)) cfg opts) \<noteq> Some Limiter_nil"
proof (induction opts arbitrary: cfg)
  case Nil
  then show ?case by simp
next
  case (Cons opt opts)
  have "rateLimit (snd (Option_apply env opt cfg)) \<noteq> Some Limiter_nil"
    using Cons.prems by (cases opt) (auto split: sum.splits)
  then have "rateLimit (foldl (\<lambda>cfg opt. snd (Option_apply env opt cfg)) (snd (Option_apply env opt cfg)) opts)
      \<noteq> Some Limiter_nil"
    using Cons.prems by (intro Cons.IH) auto
  then show ?case by simp
qed

lemma md_New_usable:
  assumes "md_New env key opts = (Some c, None)" and "WithRateLimit Limiter_nil \<notin> set opts"
  shows "\<exists>rl hc. rateLimit (options c) = Some rl \<and> rl \<noteq> Limiter_nil \<and> httpClient (options c) = Some hc"
proof -
  have v: "list_all (validates env) opts"
    using assms(1) md_New_succeeds_iff [of env key opts] by blast
  have "rateLimit (configure env opts) \<noteq> Some Limiter_nil"
    unfolding configure_def using assms(2) by (intro configure_rateLimit_not_nil) simp_all
  with md_New_valid [OF v, of key] assms(1) show ?thesis
    by (auto split: if_splits)
qed

lemma yt_New_usable:
  assumes "yt_New env key opts = (Some c, None)" and "WithRateLimit Limiter_nil \<notin> set opts"
  shows "\<exists>rl hc. rateLimit (options c) = Some rl \<and> rl \<noteq> Limiter_nil \<and> httpClient (options c) = Some hc"
proof -
  have v: "list_all (validates env) opts"
    using assms(1) yt_New_succeeds_iff [of env key opts] by blast
  have "rateLimit (configure env opts) \<noteq> Some Limiter_nil"
    unfolding configure_def using assms(2) by (intro configure_rateLimit_not_nil) simp_all
  with yt_New_valid [OF v, of key] assms(1) show ?thesis
    by (auto split: if_splits)
qed

lemma md_status_error:
  assumes "GetChannelVideos env channelID opts \<lparr>self = c, calls = []\<rparr> = (out, w')"
    and "Call_Do hc rq \<in> set (calls w')"
    and "client_Do env hc rq = Inr res"
    and "StatusCode res \<noteq> 200"
    and "Body res = Inr body"
  shows "out = Return (nil, Some (errorString (''http status code is not ok: '' @ body)))"
  using assms
  unfolding GetChannelVideos_def
  by (auto simp: Let_def call_def http_StatusOK_def Errorf_s_def split: prod.splits option.splits sum.splits if_splits)

lemma yt_status_error:
  assumes "GetTranscript env videoID opts \<lparr>self = c, calls = []\<rparr> = (out, w')"
    and "Call_Do hc rq \<in> set (calls w')"
    and "client_Do env hc rq = Inr res"
    and "StatusCode res \<noteq> 200"
    and "Body res = Inr body"
  shows "out = Return (None, Some (errorString (''http status code is not ok: '' @ body)))"
  using assms
  unfolding GetTranscript_def
  by (auto simp: Let_def call_def http_StatusOK_def Errorf_s_def split: prod.splits option.splits sum.splits if_splits)

lemma md_items:
  assumes "GetChannelVideos env channelID opts \<lparr>self = c, calls = []\<rparr> = (out, w')"
    and "Call_Do hc rq \<in> set (calls w')"
    and "client_Do env hc rq = Inr res"
    and "StatusCode res = 200"
    and "Body res = Inr body"
    and "json_Unmarshal env body = Inr r"
  shows "out = Return (Items r, None)"
  using assms
  unfolding GetChannelVideos_def
  by (auto simp: Let_def call_def http_StatusOK_def split: prod.splits option.splits sum.splits if_splits)


lemmas demo_defs = md_demo_env_def yt_demo_env_def demo_NewRequest_def demo_Header_Add_def md_demo_Unmarshal_def
  yt_demo_Unmarshal_def md_demo_client_def yt_demo_client_def md_demo_request_def yt_demo_request_def

lemma md_demo_New: "md_New (md_demo_env st b) ''key'' [] = (Some md_demo_client, None)"
  by (simp add: md_New_def demo_defs)

lemma yt_demo_New: "yt_New (yt_demo_env st b) ''key'' [] = (Some yt_demo_client, None)"
  by (simp add: yt_New_def demo_defs)


lemmas run_defs = GetChannelVideos_def GetChannelVideos_o_def GetTranscript_def GetTranscript_o_def
  ContentTypeUndefined_def call_def http_StatusOK_def Let_def

lemma md_demo_run_200:
  "GetChannelVideos (md_demo_env 200 md_demo_body) ''UC1'' [] \<lparr>self = md_demo_client, calls = []\<rparr>
   = (Return (Slice [demo_video], None),
      \<lparr>self = md_demo_client,
       calls = [Call_Take (ratelimit_New 3 time_Second),
                Call_NewRequest ''GET''
                  ''https://youtube-media-downloader.p.rapidapi.com/v2/channel/videos?channelId=UC1&lang=en'',
                Call_Header_Add ''X-RapidAPI-Key'' ''key'',
                Call_Header_Add ''X-RapidAPI-Host'' ''youtube-media-downloader.p.rapidapi.com'',
                Call_Do DefaultClient md_demo_request, Call_ReadAll,
                Call_Unmarshal md_demo_body, Call_Close]\<rparr>)"
  by (simp add: run_defs demo_defs)

lemma md_demo_run_404:
  "GetChannelVideos (md_demo_env 404 ''not found'') ''UC1'' [] \<lparr>self = md_demo_client, calls = []\<rparr>
   = (Return (nil, Some (errorString ''http status code is not ok: not found'')),
      \<lparr>self = md_demo_client,
       calls = [Call_Take (ratelimit_New 3 time_Second),
                Call_NewRequest ''GET''
                  ''https://youtube-media-downloader.p.rapidapi.com/v2/channel/videos?channelId=UC1&lang=en'',
                Call_Header_Add ''X-RapidAPI-Key'' ''key'',
                Call_Header_Add ''X-RapidAPI-Host'' ''youtube-media-downloader.p.rapidapi.com'',
                Call_Do DefaultClient md_demo_request, Call_ReadAll, Call_Close]\<rparr>)"
  by (simp add: run_defs demo_defs Errorf_s_def)

lemma yt_demo_run_200:
  "GetTranscript (yt_demo_env 200 yt_demo_body) ''v1'' [] \<lparr>self = yt_demo_client, calls = []\<rparr>
   = (Return (Some hello_world, None),
      \<lparr>self = yt_demo_client,
       calls = [Call_Take (ratelimit_New 10 time_Second),
                Call_NewRequest ''GET''
                  ''https://youtube-transcriptor.p.rapidapi.com/transcript?video_id=v1&lang=en'',
                Call_Header_Add ''X-RapidAPI-Key'' ''key'',
                Call_Header_Add ''X-RapidAPI-Host'' ''youtube-transcriptor.p.rapidapi.com'',
                Call_Do DefaultClient yt_demo_request, Call_ReadAll,
                Call_Unmarshal yt_demo_body, Call_Close]\<rparr>)"
  by (simp add: run_defs demo_defs)

lemma yt_demo_run_404:
  "GetTranscript (yt_demo_env 404 ''not found'') ''v1'' [] \<lparr>self = yt_demo_client, calls = []\<rparr>
   = (Return (None, Some (errorString ''http status code is not ok: not found'')),
      \<lparr>self = yt_demo_client,
       calls = [Call_Take (ratelimit_New 10 time_Second),
                Call_NewRequest ''GET''
                  ''https://youtube-transcriptor.p.rapidapi.com/transcript?video_id=v1&lang=en'',
                Call_Header_Add ''X-RapidAPI-Key'' ''key'',
                Call_Header_Add ''X-RapidAPI-Host'' ''youtube-transcriptor.p.rapidapi.com'',
                Call_Do DefaultClient yt_demo_request, Call_ReadAll, Call_Close]\<rparr>)"
  by (simp add: run_defs demo_defs Errorf_s_def)


lemma md_result_by_lang:
  assumes "md_request_lang opts = md_request_lang opts'"
  shows "fst (GetChannelVideos env channelID opts w) = fst (GetChannelVideos env channelID opts' w)"
  unfolding GetChannelVideos_def
  apply (subst GetChannelVideos_o_eq [of opts])
  apply (subst GetChannelVideos_o_eq [of opts'])
  using assms unfolding md_request_lang_def
  by (simp add: Let_def call_def split: option.splits sum.splits)

lemma yt_result_by_lang:
  assumes "yt_request_lang opts = yt_request_lang opts'"
  shows "fst (GetTranscript env videoID opts w) = fst (GetTranscript env videoID opts' w)"
  unfolding GetTranscript_def
  apply (subst GetTranscript_o_eq [of opts])
  apply (subst GetTranscript_o_eq [of opts'])
  using assms unfolding yt_request_lang_def
  by (simp add: Let_def call_def split: option.splits sum.splits)

lemma range_opts_skip_WithHost_empty:
  assumes "http_NewRequest env ''GET'' ''https://'' = Inr rq"
    and "\<And>h. WithHost h \<notin> set pre"
    and "host cfg = []"
  shows "fst (range_opts (Option_apply env) (pre @ WithHost [] # post) cfg)
           = fst (range_opts (Option_apply env) (pre @ post) cfg)
       \<and> fst (snd (range_opts (Option_apply env) (pre @ WithHost [] # post) cfg))
           = fst (snd (range_opts (Option_apply env) (pre @ post) cfg))"
  using assms(2,3)
proof (induction pre arbitrary: cfg)
  case Nil
  then have "cfg\<lparr>host := []\<rparr> = cfg" by simp
  then show ?case using assms(1) by (simp split: prod.splits)
next
  case (Cons opt pre)
  obtain cfg' where a: "Option_apply env opt cfg = (None, cfg')" and h: "host cfg' = []"
    using Cons.prems by (cases opt) auto
  have ih: "fst (range_opts (Option_apply env) (pre @ WithHost [] # post) cfg')
           = fst (range_opts (Option_apply env) (pre @ post) cfg')
       \<and> fst (snd (range_opts (Option_apply env) (pre @ WithHost [] # post) cfg'))
           = fst (snd (range_opts (Option_apply env) (pre @ post) cfg'))"
    using Cons.prems h by (intro Cons.IH) auto
  obtain e1 c1 k1 where r1: "range_opts (Option_apply env) (pre @ WithHost [] # post) cfg' = (e1, c1, k1)"
    by (cases "range_opts (Option_apply env) (pre @ WithHost [] # post) cfg'")
  obtain e2 c2 k2 where r2: "range_opts (Option_apply env) (pre @ post) cfg' = (e2, c2, k2)"
    by (cases "range_opts (Option_apply env) (pre @ post) cfg'")
  from ih r1 r2 have "e1 = e2" "c1 = c2" by simp_all
  then show ?case using a r1 r2 by simp
qed

lemma md_New_by_range_opts:
  assumes "fst (range_opts (Option_apply env) opts \<lparr>host = [], rateLimit = None, httpClient = None\<rparr>)
      = fst (range_opts (Option_apply env) opts' \<lparr>host = [], rateLimit = None, httpClient = None\<rparr>)"
    and "fst (snd (range_opts (Option_apply env) opts \<lparr>host = [], rateLimit = None, httpClient = None\<rparr>))
      = fst (snd (range_opts (Option_apply env) opts' \<lparr>host = [], rateLimit = None, httpClient = None\<rparr>))"
  shows "md_New env key opts = md_New env key opts'" and "yt_New env key opts = yt_New env key opts'"
  using assms unfolding md_New_def yt_New_def
  by (auto split: prod.splits option.splits)

lemma md_request_lang_skip_empty:
  assumes "\<And>l. md_WithLang l \<notin> set pre"
  shows "md_request_lang (pre @ md_WithLang [] # post) = md_request_lang (pre @ post)"
proof -
  let ?f = "\<lambda>cfg opt. snd (getChannelVideosOption_apply opt cfg)"
  let ?z = "\<lparr>md_lang = [], contentType = ContentTypeUndefined\<rparr>"
  have "md_lang (foldl ?f ?z pre) = []"
    using md_fold_keeps_lang [of pre ?z] assms by simp
  then have "(foldl ?f ?z pre)\<lparr>md_lang := []\<rparr> = foldl ?f ?z pre" by simp
  then have eq: "foldl ?f ?z (pre @ md_WithLang [] # post) = foldl ?f ?z (pre @ post)"
    by simp
  show ?thesis
    unfolding md_request_lang_def GetChannelVideos_o_def md_range_opts eq
    by (simp add: Let_def)
qed

lemma md_result_ignores_NextToken:
  "fst (GetChannelVideos
          (env\<lparr>json_Unmarshal := \<lambda>b. map_sum id (\<lambda>r. r\<lparr>Status := s r, NextToken := t r\<rparr>) (json_Unmarshal env b)\<rparr>)
          channelID opts w)
   = fst (GetChannelVideos env channelID opts w)"
  unfolding GetChannelVideos_def
  by (simp add: Let_def call_def split: prod.splits option.splits sum.splits)

lemma yt_request_lang_skip_empty:
  "yt_request_lang (yt_WithLang [] # post) = yt_request_lang post"
  by (simp add: yt_request_lang_def GetTranscript_o_def yt_range_opts)

section \<open>Construction\<close>

text \<open>
  C2, as the code has it. For every sequence of construction options passed to \<^verbatim>\<open>New\<close>
  (either client), construction succeeds iff every option validates; the options are
  applied in the order given, so that the client holds the configuration folded from left
  to right with the defaults filled in; at the first invalid option construction stops
  (the options after it are never called) and returns no client. The error returned is not
  the option's error itself: it is a new error whose message is \<open>bad option: \<close> followed by
  the message of the option's error, and which wraps the option's error.
\<close>

theorem New_first_invalid_wrapped:
  "((\<exists>c. md_New env key opts = (Some c, None)) \<longleftrightarrow> list_all (validates env) opts)
   \<and> ((\<exists>c. yt_New env key opts = (Some c, None)) \<longleftrightarrow> list_all (validates env) opts)
   \<and> (list_all (validates env) opts \<longrightarrow>
        range_opts (Option_apply env) opts \<lparr>host = [], rateLimit = None, httpClient = None\<rparr>
          = (None, configure env opts, opts)
        \<and> (\<exists>c. md_New env key opts = (Some c, None) \<and> apiKey c = key
             \<and> host (options c) = (if host (configure env opts) = []
                                     then ''youtube-media-downloader.p.rapidapi.com''
                                     else host (configure env opts))
             \<and> rateLimit (options c) = (if rateLimit (configure env opts) = None
                                          then Some (ratelimit_New 3 time_Second)
                                          else rateLimit (configure env opts))
             \<and> httpClient (options c) = (if httpClient (configure env opts) = None
                                           then Some DefaultClient
                                           else httpClient (configure env opts)))
        \<and> (\<exists>c. yt_New env key opts = (Some c, None) \<and> apiKey c = key
             \<and> host (options c) = (if host (configure env opts) = []
                                     then ''youtube-transcriptor.p.rapidapi.com''
                                     else host (configure env opts))
             \<and> rateLimit (options c) = (if rateLimit (configure env opts) = None
                                          then Some (ratelimit_New 10 time_Second)
                                          else rateLimit (configure env opts))
             \<and> httpClient (options c) = (if httpClient (configure env opts) = None
                                           then Some DefaultClient
                                           else httpClient (configure env opts))))
   \<and> (list_all (validates env) pre \<and> \<not> validates env bad \<longrightarrow>
        (\<exists>e. fst (Option_apply env bad (configure env pre)) = Some e
           \<and> md_New env key (pre @ bad # post) = (None, Some (wrapError (''bad option: '' @ Error e) e))
           \<and> yt_New env key (pre @ bad # post) = (None, Some (wrapError (''bad option: '' @ Error e) e))
           \<and> range_opts (Option_apply env) (pre @ bad # post)
                \<lparr>host = [], rateLimit = None, httpClient = None\<rparr>
              = (Some (wrapError (''bad option: '' @ Error e) e), configure env pre, pre @ [bad])))"
proof -
  have valid: "list_all (validates env) opts \<longrightarrow>
        range_opts (Option_apply env) opts \<lparr>host = [], rateLimit = None, httpClient = None\<rparr>
          = (None, configure env opts, opts)
        \<and> (\<exists>c. md_New env key opts = (Some c, None) \<and> apiKey c = key
             \<and> host (options c) = (if host (configure env opts) = []
                                     then ''youtube-media-downloader.p.rapidapi.com''
                                     else host (configure env opts))
             \<and> rateLimit (options c) = (if rateLimit (configure env opts) = None
                                          then Some (ratelimit_New 3 time_Second)
                                          else rateLimit (configure env opts))
             \<and> httpClient (options c) = (if httpClient (configure env opts) = None
                                           then Some DefaultClient
                                           else httpClient (configure env opts)))
        \<and> (\<exists>c. yt_New env key opts = (Some c, None) \<and> apiKey c = key
             \<and> host (options c) = (if host (configure env opts) = []
                                     then ''youtube-transcriptor.p.rapidapi.com''
                                     else host (configure env opts))
             \<and> rateLimit (options c) = (if rateLimit (configure env opts) = None
                                          then Some (ratelimit_New 10 time_Second)
                                          else rateLimit (configure env opts))
             \<and> httpClient (options c) = (if httpClient (configure env opts) = None
                                           then Some DefaultClient
                                           else httpClient (configure env opts)))"
    using range_opts_valid [of env opts] md_New_valid [of env opts key] yt_New_valid [of env opts key]
    by blast
  have invalid: "list_all (validates env) pre \<and> \<not> validates env bad \<longrightarrow>
        (\<exists>e. fst (Option_apply env bad (configure env pre)) = Some e
           \<and> md_New env key (pre @ bad # post) = (None, Some (wrapError (''bad option: '' @ Error e) e))
           \<and> yt_New env key (pre @ bad # post) = (None, Some (wrapError (''bad option: '' @ Error e) e))
           \<and> range_opts (Option_apply env) (pre @ bad # post)
                \<lparr>host = [], rateLimit = None, httpClient = None\<rparr>
              = (Some (wrapError (''bad option: '' @ Error e) e), configure env pre, pre @ [bad]))"
    using New_invalid [of env pre bad key post] by blast
  show ?thesis
    using md_New_succeeds_iff [of env key opts] yt_New_succeeds_iff [of env key opts] valid invalid
    by blast
qed

text \<open>
  A run of it: two valid options, the later host winning; and a host with a space in it
  after a valid option and before another one.
\<close>

theorem New_first_invalid_wrapped_witness:
  "list_all (validates (md_demo_env 200 [])) [WithHost ''h1'', WithHost ''h2'']
   \<and> md_New (md_demo_env 200 []) ''key'' [WithHost ''h1'', WithHost ''h2'']
       = (Some \<lparr>apiKey = ''key'',
                options = \<lparr>host = ''h2'', rateLimit = Some (ratelimit_New 3 time_Second),
                           httpClient = Some DefaultClient\<rparr>\<rparr>, None)
   \<and> list_all (validates (md_demo_env 200 [])) [WithRateLimit (Limiter_impl 1)]
   \<and> \<not> validates (md_demo_env 200 []) (WithHost ''a b'')
   \<and> md_New (md_demo_env 200 []) ''key'' ([WithRateLimit (Limiter_impl 1)] @ WithHost ''a b'' # [WithHost ''h3''])
       = (None, Some (wrapError ''bad option: invalid host: parse https://a b: invalid character in host name''
                       (wrapError ''invalid host: parse https://a b: invalid character in host name''
                         (errorString ''parse https://a b: invalid character in host name''))))"
proof -
  have h1: "list_all (validates (md_demo_env 200 [])) [WithHost ''h1'', WithHost ''h2'']"
    by (simp add: validates_def demo_defs)
  have h2: "list_all (validates (md_demo_env 200 [])) [WithRateLimit (Limiter_impl 1)]"
    by (simp add: validates_def)
  have h3: "\<not> validates (md_demo_env 200 []) (WithHost ''a b'')"
    by (simp add: validates_def demo_defs)
  have cfg1: "configure (md_demo_env 200 []) [WithHost ''h1'', WithHost ''h2'']
      = \<lparr>host = ''h2'', rateLimit = None, httpClient = None\<rparr>"
    by (simp add: configure_def demo_defs)
  have cfg2: "fst (Option_apply (md_demo_env 200 []) (WithHost ''a b'')
                 (configure (md_demo_env 200 []) [WithRateLimit (Limiter_impl 1)]))
      = Some (wrapError ''invalid host: parse https://a b: invalid character in host name''
               (errorString ''parse https://a b: invalid character in host name''))"
    by (simp add: configure_def demo_defs Errorf_w_def)
  note inst = New_first_invalid_wrapped [of "md_demo_env 200 []" "''key''" "[WithHost ''h1'', WithHost ''h2'']"
      "[WithRateLimit (Limiter_impl 1)]" "WithHost ''a b''" "[WithHost ''h3'']"]
  from inst h1 cfg1 have c1: "md_New (md_demo_env 200 []) ''key'' [WithHost ''h1'', WithHost ''h2'']
       = (Some \<lparr>apiKey = ''key'',
                options = \<lparr>host = ''h2'', rateLimit = Some (ratelimit_New 3 time_Second),
                           httpClient = Some DefaultClient\<rparr>\<rparr>, None)"
    by auto
  from inst h2 h3 cfg2 have c2: "md_New (md_demo_env 200 []) ''key''
        ([WithRateLimit (Limiter_impl 1)] @ WithHost ''a b'' # [WithHost ''h3''])
       = (None, Some (wrapError ''bad option: invalid host: parse https://a b: invalid character in host name''
                       (wrapError ''invalid host: parse https://a b: invalid character in host name''
                         (errorString ''parse https://a b: invalid character in host name''))))"
    by auto
  show ?thesis using h1 h2 h3 c1 c2 by blast
qed

text \<open>
  C2 as it is written fails on the code: the error \<^verbatim>\<open>New\<close> returns for the host \<open>a b\<close> is not
  the error the option returned.
\<close>

theorem New_error_unchanged_counterexample:
  "fst (Option_apply (md_demo_env 200 []) (WithHost ''a b'')
          \<lparr>host = [], rateLimit = None, httpClient = None\<rparr>)
     = Some (wrapError ''invalid host: parse https://a b: invalid character in host name''
              (errorString ''parse https://a b: invalid character in host name''))
   \<and> md_New (md_demo_env 200 []) ''key'' [WithHost ''a b'']
     = (None, Some (wrapError ''bad option: invalid host: parse https://a b: invalid character in host name''
                     (wrapError ''invalid host: parse https://a b: invalid character in host name''
                       (errorString ''parse https://a b: invalid character in host name''))))
   \<and> snd (md_New (md_demo_env 200 []) ''key'' [WithHost ''a b''])
     \<noteq> fst (Option_apply (md_demo_env 200 []) (WithHost ''a b'')
              \<lparr>host = [], rateLimit = None, httpClient = None\<rparr>)
   \<and> snd (yt_New (yt_demo_env 200 []) ''key'' [WithHost ''a b''])
     \<noteq> fst (Option_apply (yt_demo_env 200 []) (WithHost ''a b'')
              \<lparr>host = [], rateLimit = None, httpClient = None\<rparr>)"
  by (simp add: md_New_def yt_New_def demo_defs Errorf_w_def)

text \<open>
  C5. With the options omitted: \<^verbatim>\<open>New\<close> without options gives the documented host of each
  service, a limiter of 3 (channel videos) or 10 (transcripts) per \<^verbatim>\<open>time.Second\<close>, and
  \<^verbatim>\<open>http.DefaultClient\<close>; a client built from any options has the default in each field
  that none of the options sets; a call has \<open>en\<close> for the language when no option gives one,
  and \<^verbatim>\<open>GetChannelVideos\<close> has \<open>videos\<close> for the content type when no option gives one.
\<close>

theorem defaults_when_omitted:
  "md_New env key []
     = (Some \<lparr>apiKey = key,
              options = \<lparr>host = ''youtube-media-downloader.p.rapidapi.com'',
                         rateLimit = Some (ratelimit_New 3 time_Second),
                         httpClient = Some DefaultClient\<rparr>\<rparr>, None)
   \<and> yt_New env key []
     = (Some \<lparr>apiKey = key,
              options = \<lparr>host = ''youtube-transcriptor.p.rapidapi.com'',
                         rateLimit = Some (ratelimit_New 10 time_Second),
                         httpClient = Some DefaultClient\<rparr>\<rparr>, None)
   \<and> time_Second = 1000000000
   \<and> (md_New env key copts = (Some c, None) \<longrightarrow>
        ((\<forall>h. WithHost h \<notin> set copts) \<longrightarrow> host (options c) = ''youtube-media-downloader.p.rapidapi.com'')
      \<and> ((\<forall>rl. WithRateLimit rl \<notin> set copts) \<longrightarrow> rateLimit (options c) = Some (ratelimit_New 3 time_Second))
      \<and> ((\<forall>hc. WithHttpClient hc \<notin> set copts) \<longrightarrow> httpClient (options c) = Some DefaultClient))
   \<and> (yt_New env key copts = (Some c', None) \<longrightarrow>
        ((\<forall>h. WithHost h \<notin> set copts) \<longrightarrow> host (options c') = ''youtube-transcriptor.p.rapidapi.com'')
      \<and> ((\<forall>rl. WithRateLimit rl \<notin> set copts) \<longrightarrow> rateLimit (options c') = Some (ratelimit_New 10 time_Second))
      \<and> ((\<forall>hc. WithHttpClient hc \<notin> set copts) \<longrightarrow> httpClient (options c') = Some DefaultClient))
   \<and> ((\<forall>l. md_WithLang l \<notin> set opts) \<longrightarrow> md_request_lang opts = ''en'')
   \<and> ((\<forall>ct. WithContentType ct \<notin> set opts) \<longrightarrow>
        contentType (fst (snd (GetChannelVideos_o opts))) = ''videos'')
   \<and> yt_request_lang [] = ''en''"
proof -
  have a: "md_New env key []
     = (Some \<lparr>apiKey = key,
              options = \<lparr>host = ''youtube-media-downloader.p.rapidapi.com'',
                         rateLimit = Some (ratelimit_New 3 time_Second),
                         httpClient = Some DefaultClient\<rparr>\<rparr>, None)"
    by (simp add: md_New_def)
  have b: "yt_New env key []
     = (Some \<lparr>apiKey = key,
              options = \<lparr>host = ''youtube-transcriptor.p.rapidapi.com'',
                         rateLimit = Some (ratelimit_New 10 time_Second),
                         httpClient = Some DefaultClient\<rparr>\<rparr>, None)"
    by (simp add: yt_New_def)
  have l: "(\<forall>l. md_WithLang l \<notin> set opts) \<longrightarrow> md_request_lang opts = ''en''"
    using md_request_lang_default [of opts] by blast
  have ct: "(\<forall>ct. WithContentType ct \<notin> set opts) \<longrightarrow>
        contentType (fst (snd (GetChannelVideos_o opts))) = ''videos''"
    using md_contentType_default [of opts] by (auto simp: ContentTypeVideos_def)
  show ?thesis
    using a b l ct md_New_defaults [of env key copts c] yt_New_defaults [of env key copts c']
      yt_request_lang_Nil
    by (simp add: time_Second_def)
qed

theorem defaults_when_omitted_witness:
  "md_New (md_demo_env 200 []) ''key'' [WithHttpClient (Client_value 7)]
     = (Some \<lparr>apiKey = ''key'',
              options = \<lparr>host = ''youtube-media-downloader.p.rapidapi.com'',
                         rateLimit = Some (ratelimit_New 3 time_Second),
                         httpClient = Some (Client_value 7)\<rparr>\<rparr>, None)
   \<and> yt_New (md_demo_env 200 []) ''key'' [WithHttpClient (Client_value 7)]
     = (Some \<lparr>apiKey = ''key'',
              options = \<lparr>host = ''youtube-transcriptor.p.rapidapi.com'',
                         rateLimit = Some (ratelimit_New 10 time_Second),
                         httpClient = Some (Client_value 7)\<rparr>\<rparr>, None)
   \<and> (\<forall>l. md_WithLang l \<notin> set [WithContentType ContentTypeShorts])
   \<and> md_request_lang [WithContentType ContentTypeShorts] = ''en''
   \<and> (\<forall>ct. WithContentType ct \<notin> set [md_WithLang ''fr''])
   \<and> contentType (fst (snd (GetChannelVideos_o [md_WithLang ''fr'']))) = ''videos''"
proof -
  have h1: "md_New (md_demo_env 200 []) ''key'' [WithHttpClient (Client_value 7)]
     = (Some \<lparr>apiKey = ''key'',
              options = \<lparr>host = ''youtube-media-downloader.p.rapidapi.com'',
                         rateLimit = Some (ratelimit_New 3 time_Second),
                         httpClient = Some (Client_value 7)\<rparr>\<rparr>, None)"
    by (simp add: md_New_def)
  have h2: "yt_New (md_demo_env 200 []) ''key'' [WithHttpClient (Client_value 7)]
     = (Some \<lparr>apiKey = ''key'',
              options = \<lparr>host = ''youtube-transcriptor.p.rapidapi.com'',
                         rateLimit = Some (ratelimit_New 10 time_Second),
                         httpClient = Some (Client_value 7)\<rparr>\<rparr>, None)"
    by (simp add: yt_New_def)
  have h3: "\<forall>l. md_WithLang l \<notin> set [WithContentType ContentTypeShorts]" by simp
  have h4: "\<forall>ct. WithContentType ct \<notin> set [md_WithLang ''fr'']" by simp
  note inst = defaults_when_omitted [of "md_demo_env 200 []" "''key''" "[WithHttpClient (Client_value 7)]"]
  from inst [of _ _ "[WithContentType ContentTypeShorts]"] h3
  have c1: "md_request_lang [WithContentType ContentTypeShorts] = ''en''" by blast
  from inst [of _ _ "[md_WithLang ''fr'']"] h4
  have c2: "contentType (fst (snd (GetChannelVideos_o [md_WithLang ''fr'']))) = ''videos''" by blast
  show ?thesis using h1 h2 h3 h4 c1 c2 by blast
qed

section \<open>The requests\<close>

text \<open>
  C3. When \<^verbatim>\<open>GetChannelVideos\<close> has sent a request, the transport has answered it with
  status 200 and a readable body, and that body decodes to a channel-videos object \<open>r\<close>, the
  call returns the items of \<open>r\<close> as they were decoded, with no error. What it returns is a
  slice of videos and an error: \<^verbatim>\<open>nextToken\<close> and \<^verbatim>\<open>status\<close> have no place in it, and a decoder
  that gives any other \<^verbatim>\<open>nextToken\<close> and \<^verbatim>\<open>status\<close> for the same body leads to the same result.
\<close>

theorem GetChannelVideos_returns_items:
  assumes "Call_Do hc rq \<in> set (calls (snd (GetChannelVideos env channelID opts \<lparr>self = c, calls = []\<rparr>)))"
    and "client_Do env hc rq = Inr res"
    and "StatusCode res = 200"
    and "Body res = Inr body"
    and "json_Unmarshal env body = Inr r"
  shows "fst (GetChannelVideos env channelID opts \<lparr>self = c, calls = []\<rparr>) = Return (Items r, None)
     \<and> fst (GetChannelVideos
               (env\<lparr>json_Unmarshal :=
                      \<lambda>b. map_sum id (\<lambda>r. r\<lparr>Status := s r, NextToken := t r\<rparr>) (json_Unmarshal env b)\<rparr>)
               channelID opts \<lparr>self = c, calls = []\<rparr>)
         = Return (Items r, None)"
proof -
  obtain out w' where run: "GetChannelVideos env channelID opts \<lparr>self = c, calls = []\<rparr> = (out, w')"
    by (cases "GetChannelVideos env channelID opts \<lparr>self = c, calls = []\<rparr>")
  have "out = Return (Items r, None)"
    using run assms by (intro md_items [of env channelID opts c out w' hc rq res body r]) simp_all
  with run have "fst (GetChannelVideos env channelID opts \<lparr>self = c, calls = []\<rparr>) = Return (Items r, None)"
    by simp
  then show ?thesis
    by (simp only: md_result_ignores_NextToken)
qed

theorem GetChannelVideos_returns_items_witness:
  "Call_Do DefaultClient md_demo_request
     \<in> set (calls (snd (GetChannelVideos (md_demo_env 200 md_demo_body) ''UC1'' []
                          \<lparr>self = md_demo_client, calls = []\<rparr>)))
   \<and> client_Do (md_demo_env 200 md_demo_body) DefaultClient md_demo_request
       = Inr \<lparr>StatusCode = 200, Body = Inr md_demo_body\<rparr>
   \<and> json_Unmarshal (md_demo_env 200 md_demo_body) md_demo_body
       = Inr \<lparr>Status = True, NextToken = ''n2'', Items = Slice [demo_video]\<rparr>
   \<and> fst (GetChannelVideos (md_demo_env 200 md_demo_body) ''UC1'' [] \<lparr>self = md_demo_client, calls = []\<rparr>)
       = Return (Slice [demo_video], None)"
proof -
  have h1: "Call_Do DefaultClient md_demo_request
     \<in> set (calls (snd (GetChannelVideos (md_demo_env 200 md_demo_body) ''UC1'' []
                          \<lparr>self = md_demo_client, calls = []\<rparr>)))"
    by (simp add: md_demo_run_200)
  have h2: "client_Do (md_demo_env 200 md_demo_body) DefaultClient md_demo_request
       = Inr \<lparr>StatusCode = 200, Body = Inr md_demo_body\<rparr>"
    by (simp add: md_demo_env_def)
  have h3: "StatusCode \<lparr>StatusCode = 200, Body = Inr md_demo_body\<rparr> = 200" by simp
  have h4: "Body \<lparr>StatusCode = 200, Body = Inr md_demo_body\<rparr> = Inr md_demo_body" by simp
  have h5: "json_Unmarshal (md_demo_env 200 md_demo_body) md_demo_body
       = Inr \<lparr>Status = True, NextToken = ''n2'', Items = Slice [demo_video]\<rparr>"
    by (simp add: md_demo_env_def md_demo_Unmarshal_def)
  from GetChannelVideos_returns_items [OF h1 h2 h3 h4 h5]
  have "fst (GetChannelVideos (md_demo_env 200 md_demo_body) ''UC1'' [] \<lparr>self = md_demo_client, calls = []\<rparr>)
       = Return (Slice [demo_video], None)"
    by simp
  with h1 h2 h5 show ?thesis by blast
qed

text \<open>
  C4. When \<^verbatim>\<open>GetChannelVideos\<close> has sent a request and the transport has answered it with a
  status other than 200 and a readable body, the call returns a \<^verbatim>\<open>nil\<close> list and the error
  whose message is \<open>http status code is not ok: \<close> followed by exactly the bytes of the body;
  \<^verbatim>\<open>GetTranscript\<close> returns a \<^verbatim>\<open>nil\<close> pointer and the same error.
\<close>

theorem non_200_gives_status_error:
  "(Call_Do hc rq \<in> set (calls (snd (GetChannelVideos env channelID opts \<lparr>self = c, calls = []\<rparr>)))
      \<and> client_Do env hc rq = Inr res \<and> StatusCode res \<noteq> 200 \<and> Body res = Inr body
    \<longrightarrow> fst (GetChannelVideos env channelID opts \<lparr>self = c, calls = []\<rparr>)
          = Return (nil, Some (errorString (''http status code is not ok: '' @ body))))
   \<and> (Call_Do hc' rq' \<in> set (calls (snd (GetTranscript env' videoID opts' \<lparr>self = c', calls = []\<rparr>)))
      \<and> client_Do env' hc' rq' = Inr res' \<and> StatusCode res' \<noteq> 200 \<and> Body res' = Inr body'
    \<longrightarrow> fst (GetTranscript env' videoID opts' \<lparr>self = c', calls = []\<rparr>)
          = Return (None, Some (errorString (''http status code is not ok: '' @ body'))))
   \<and> Error (errorString (''http status code is not ok: '' @ body)) = ''http status code is not ok: '' @ body"
proof -
  obtain out w where run: "GetChannelVideos env channelID opts \<lparr>self = c, calls = []\<rparr> = (out, w)"
    by (cases "GetChannelVideos env channelID opts \<lparr>self = c, calls = []\<rparr>")
  obtain out' w' where run': "GetTranscript env' videoID opts' \<lparr>self = c', calls = []\<rparr> = (out', w')"
    by (cases "GetTranscript env' videoID opts' \<lparr>self = c', calls = []\<rparr>")
  have md: "Call_Do hc rq \<in> set (calls w) \<Longrightarrow> client_Do env hc rq = Inr res \<Longrightarrow> StatusCode res \<noteq> 200
      \<Longrightarrow> Body res = Inr body
      \<Longrightarrow> out = Return (nil, Some (errorString (''http status code is not ok: '' @ body)))"
    using run by (rule md_status_error)
  have yt: "Call_Do hc' rq' \<in> set (calls w') \<Longrightarrow> client_Do env' hc' rq' = Inr res' \<Longrightarrow> StatusCode res' \<noteq> 200
      \<Longrightarrow> Body res' = Inr body'
      \<Longrightarrow> out' = Return (None, Some (errorString (''http status code is not ok: '' @ body')))"
    using run' by (rule yt_status_error)
  show ?thesis using md yt by (simp add: run run')
qed

theorem non_200_gives_status_error_witness:
  "Call_Do DefaultClient md_demo_request
     \<in> set (calls (snd (GetChannelVideos (md_demo_env 404 ''not found'') ''UC1'' []
                          \<lparr>self = md_demo_client, calls = []\<rparr>)))
   \<and> client_Do (md_demo_env 404 ''not found'') DefaultClient md_demo_request
       = Inr \<lparr>StatusCode = 404, Body = Inr ''not found''\<rparr>
   \<and> fst (GetChannelVideos (md_demo_env 404 ''not found'') ''UC1'' [] \<lparr>self = md_demo_client, calls = []\<rparr>)
       = Return (nil, Some (errorString ''http status code is not ok: not found''))
   \<and> Call_Do DefaultClient yt_demo_request
     \<in> set (calls (snd (GetTranscript (yt_demo_env 404 ''not found'') ''v1'' []
                          \<lparr>self = yt_demo_client, calls = []\<rparr>)))
   \<and> client_Do (yt_demo_env 404 ''not found'') DefaultClient yt_demo_request
       = Inr \<lparr>StatusCode = 404, Body = Inr ''not found''\<rparr>
   \<and> fst (GetTranscript (yt_demo_env 404 ''not found'') ''v1'' [] \<lparr>self = yt_demo_client, calls = []\<rparr>)
       = Return (None, Some (errorString ''http status code is not ok: not found''))"
proof -
  have h1: "Call_Do DefaultClient md_demo_request
     \<in> set (calls (snd (GetChannelVideos (md_demo_env 404 ''not found'') ''UC1'' []
                          \<lparr>self = md_demo_client, calls = []\<rparr>)))"
    by (simp add: md_demo_run_404)
  have h2: "client_Do (md_demo_env 404 ''not found'') DefaultClient md_demo_request
       = Inr \<lparr>StatusCode = 404, Body = Inr ''not found''\<rparr>"
    by (simp add: md_demo_env_def)
  have h3: "Call_Do DefaultClient yt_demo_request
     \<in> set (calls (snd (GetTranscript (yt_demo_env 404 ''not found'') ''v1'' []
                          \<lparr>self = yt_demo_client, calls = []\<rparr>)))"
    by (simp add: yt_demo_run_404)
  have h4: "client_Do (yt_demo_env 404 ''not found'') DefaultClient yt_demo_request
       = Inr \<lparr>StatusCode = 404, Body = Inr ''not found''\<rparr>"
    by (simp add: yt_demo_env_def)
  note inst = non_200_gives_status_error [of DefaultClient md_demo_request "md_demo_env 404 ''not found''"
      "''UC1''" "[]" md_demo_client "\<lparr>StatusCode = 404, Body = Inr ''not found''\<rparr>" "''not found''"
      DefaultClient yt_demo_request "yt_demo_env 404 ''not found''" "''v1''" "[]" yt_demo_client
      "\<lparr>StatusCode = 404, Body = Inr ''not found''\<rparr>" "''not found''"]
  from inst h1 h2
  have c1: "fst (GetChannelVideos (md_demo_env 404 ''not found'') ''UC1'' [] \<lparr>self = md_demo_client, calls = []\<rparr>)
       = Return (nil, Some (errorString ''http status code is not ok: not found''))"
    by simp
  from inst h3 h4
  have c2: "fst (GetTranscript (yt_demo_env 404 ''not found'') ''v1'' [] \<lparr>self = yt_demo_client, calls = []\<rparr>)
       = Return (None, Some (errorString ''http status code is not ok: not found''))"
    by simp
  show ?thesis using h1 h2 h3 h4 c1 c2 by blast
qed

text \<open>
  C6. Every request a call builds has the method \<open>GET\<close> and exactly the URL
  \<open>https://{host}/v2/channel/videos?channelId={channelID}&lang={lang}\<close>
  (\<^verbatim>\<open>GetChannelVideos\<close>) or \<open>https://{host}/transcript?video_id={videoID}&lang={lang}\<close>
  (\<^verbatim>\<open>GetTranscript\<close>), the three strings put in as they are; a call on a client whose limiter
  is not \<^verbatim>\<open>nil\<close> (so on every client built by \<^verbatim>\<open>New\<close> without \<^verbatim>\<open>WithRateLimit(nil)\<close>) builds
  exactly one. There \<open>lang\<close> is the value of the last language option, or \<open>en\<close> when that is
  empty or there is none; the content-type options a call is given have no part in the URL.
\<close>

theorem request_url_exact:
  "(\<forall>m u. Call_NewRequest m u \<in> set (calls (snd (GetChannelVideos env channelID opts \<lparr>self = c, calls = []\<rparr>)))
        \<longrightarrow> m = ''GET''
          \<and> u = ''https://'' @ host (options c) @ ''/v2/channel/videos?channelId='' @ channelID
                  @ ''&lang='' @ md_request_lang opts)
   \<and> ((rateLimit (options c) = Some rl \<and> rl \<noteq> Limiter_nil
         \<or> md_New env0 key copts = (Some c, None) \<and> WithRateLimit Limiter_nil \<notin> set copts) \<longrightarrow>
        (\<exists>rl rest. calls (snd (GetChannelVideos env channelID opts \<lparr>self = c, calls = []\<rparr>))
            = map Call_opt opts @ Call_Take rl
              # Call_NewRequest ''GET'' (''https://'' @ host (options c) @ ''/v2/channel/videos?channelId=''
                  @ channelID @ ''&lang='' @ md_request_lang opts) # rest
          \<and> (\<forall>m u. Call_NewRequest m u \<notin> set rest)))
   \<and> md_request_lang (pre @ md_WithLang lang # map WithContentType cts) = (if lang = [] then ''en'' else lang)
   \<and> md_request_lang (map WithContentType cts) = ''en''
   \<and> (\<forall>m u. Call_NewRequest m u \<in> set (calls (snd (GetTranscript env' videoID opts' \<lparr>self = c', calls = []\<rparr>)))
        \<longrightarrow> m = ''GET''
          \<and> u = ''https://'' @ host (options c') @ ''/transcript?video_id='' @ videoID
                  @ ''&lang='' @ yt_request_lang opts')
   \<and> ((rateLimit (options c') = Some rl' \<and> rl' \<noteq> Limiter_nil
         \<or> yt_New env1 key' copts' = (Some c', None) \<and> WithRateLimit Limiter_nil \<notin> set copts') \<longrightarrow>
        (\<exists>rl rest. calls (snd (GetTranscript env' videoID opts' \<lparr>self = c', calls = []\<rparr>))
            = map Call_opt opts' @ Call_Take rl
              # Call_NewRequest ''GET'' (''https://'' @ host (options c') @ ''/transcript?video_id=''
                  @ videoID @ ''&lang='' @ yt_request_lang opts') # rest
          \<and> (\<forall>m u. Call_NewRequest m u \<notin> set rest)))
   \<and> yt_request_lang (pre' @ [yt_WithLang lang']) = (if lang' = [] then ''en'' else lang')
   \<and> yt_request_lang [] = ''en''"
proof -
  let ?tr = "calls (snd (GetChannelVideos env channelID opts \<lparr>self = c, calls = []\<rparr>))"
  let ?url = "''https://'' @ host (options c) @ ''/v2/channel/videos?channelId='' @ channelID
                  @ ''&lang='' @ md_request_lang opts"
  let ?tr' = "calls (snd (GetTranscript env' videoID opts' \<lparr>self = c', calls = []\<rparr>))"
  let ?url' = "''https://'' @ host (options c') @ ''/transcript?video_id='' @ videoID
                  @ ''&lang='' @ yt_request_lang opts'"
  have one: "\<exists>rest. ?tr = map Call_opt opts @ Call_Take r # Call_NewRequest ''GET'' ?url # rest
          \<and> (\<forall>m u. Call_NewRequest m u \<notin> set rest)"
    if r: "rateLimit (options c) = Some r" "r \<noteq> Limiter_nil" for r
  proof -
    obtain rest where rest: "?tr = map Call_opt opts @ Call_Take r # Call_NewRequest ''GET'' ?url # rest"
      and late: "\<forall>e \<in> set rest. 3 \<le> stage e"
      using md_calls_shape [OF r, of env channelID opts] by blast
    have "\<forall>m u. Call_NewRequest m u \<notin> set rest"
      using late by fastforce
    with rest show ?thesis by blast
  qed
  have one': "\<exists>rest. ?tr' = map Call_opt opts' @ Call_Take r # Call_NewRequest ''GET'' ?url' # rest
          \<and> (\<forall>m u. Call_NewRequest m u \<notin> set rest)"
    if r: "rateLimit (options c') = Some r" "r \<noteq> Limiter_nil" for r
  proof -
    obtain rest where rest: "?tr' = map Call_opt opts' @ Call_Take r # Call_NewRequest ''GET'' ?url' # rest"
      and late: "\<forall>e \<in> set rest. 3 \<le> stage e"
      using yt_calls_shape [OF r, of env' videoID opts'] by blast
    have "\<forall>m u. Call_NewRequest m u \<notin> set rest"
      using late by fastforce
    with rest show ?thesis by blast
  qed
  have every: "\<forall>m u. Call_NewRequest m u \<in> set ?tr \<longrightarrow> m = ''GET'' \<and> u = ?url"
  proof (cases "rateLimit (options c) = None \<or> rateLimit (options c) = Some Limiter_nil")
    case True
    show ?thesis by (auto simp: md_calls_panic [OF True])
  next
    case False
    then obtain r where r: "rateLimit (options c) = Some r" "r \<noteq> Limiter_nil" by auto
    from one [OF r] obtain rest
      where "?tr = map Call_opt opts @ Call_Take r # Call_NewRequest ''GET'' ?url # rest"
        and "\<forall>m u. Call_NewRequest m u \<notin> set rest"
      by blast
    then show ?thesis by auto
  qed
  have every': "\<forall>m u. Call_NewRequest m u \<in> set ?tr' \<longrightarrow> m = ''GET'' \<and> u = ?url'"
  proof (cases "rateLimit (options c') = None \<or> rateLimit (options c') = Some Limiter_nil")
    case True
    show ?thesis by (auto simp: yt_calls_panic [OF True])
  next
    case False
    then obtain r where r: "rateLimit (options c') = Some r" "r \<noteq> Limiter_nil" by auto
    from one' [OF r] obtain rest
      where "?tr' = map Call_opt opts' @ Call_Take r # Call_NewRequest ''GET'' ?url' # rest"
        and "\<forall>m u. Call_NewRequest m u \<notin> set rest"
      by blast
    then show ?thesis by auto
  qed
  have built: "(rateLimit (options c) = Some rl \<and> rl \<noteq> Limiter_nil
         \<or> md_New env0 key copts = (Some c, None) \<and> WithRateLimit Limiter_nil \<notin> set copts) \<longrightarrow>
        (\<exists>rl rest. ?tr = map Call_opt opts @ Call_Take rl # Call_NewRequest ''GET'' ?url # rest
          \<and> (\<forall>m u. Call_NewRequest m u \<notin> set rest))"
    using one md_New_usable [of env0 key copts c] by blast
  have built': "(rateLimit (options c') = Some rl' \<and> rl' \<noteq> Limiter_nil
         \<or> yt_New env1 key' copts' = (Some c', None) \<and> WithRateLimit Limiter_nil \<notin> set copts') \<longrightarrow>
        (\<exists>rl rest. ?tr' = map Call_opt opts' @ Call_Take rl # Call_NewRequest ''GET'' ?url' # rest
          \<and> (\<forall>m u. Call_NewRequest m u \<notin> set rest))"
    using one' yt_New_usable [of env1 key' copts' c'] by blast
  have l1: "md_request_lang (pre @ md_WithLang lang # map WithContentType cts)
      = (if lang = [] then ''en'' else lang)"
    by (rule md_request_lang_last) auto
  have l2: "md_request_lang (map WithContentType cts) = ''en''"
    by (rule md_request_lang_default) auto
  show ?thesis
    using every built every' built' l1 l2 yt_request_lang_last [of pre' lang'] yt_request_lang_Nil
    by blast
qed

theorem request_url_exact_witness:
  "md_New (md_demo_env 200 md_demo_body) ''key'' [] = (Some md_demo_client, None)
   \<and> WithRateLimit Limiter_nil \<notin> set []
   \<and> yt_New (yt_demo_env 200 yt_demo_body) ''key'' [] = (Some yt_demo_client, None)
   \<and> md_request_lang ([WithContentType ContentTypeLive] @ md_WithLang ''fr'' # map WithContentType [ContentTypeShorts])
       = ''fr''
   \<and> yt_request_lang ([] @ [yt_WithLang ''de'']) = ''de''
   \<and> (\<exists>rl rest. calls (snd (GetChannelVideos (md_demo_env 200 md_demo_body) ''UC1''
                             [WithContentType ContentTypeLive, md_WithLang ''fr'', WithContentType ContentTypeShorts]
                             \<lparr>self = md_demo_client, calls = []\<rparr>))
        = map Call_opt [WithContentType ContentTypeLive, md_WithLang ''fr'', WithContentType ContentTypeShorts]
          @ Call_Take rl
          # Call_NewRequest ''GET''
              ''https://youtube-media-downloader.p.rapidapi.com/v2/channel/videos?channelId=UC1&lang=fr''
          # rest)
   \<and> (\<exists>rl rest. calls (snd (GetTranscript (yt_demo_env 200 yt_demo_body) ''v1'' [yt_WithLang ''de'']
                             \<lparr>self = yt_demo_client, calls = []\<rparr>))
        = map Call_opt [yt_WithLang ''de''] @ Call_Take rl
          # Call_NewRequest ''GET'' ''https://youtube-transcriptor.p.rapidapi.com/transcript?video_id=v1&lang=de''
          # rest)"
proof -
  have h1: "md_New (md_demo_env 200 md_demo_body) ''key'' [] = (Some md_demo_client, None)"
    by (rule md_demo_New)
  have h2: "yt_New (yt_demo_env 200 yt_demo_body) ''key'' [] = (Some yt_demo_client, None)"
    by (rule yt_demo_New)
  have h3: "WithRateLimit Limiter_nil \<notin> set []" by simp
  note inst = request_url_exact [where env = "md_demo_env 200 md_demo_body" and channelID = "''UC1''"
      and opts = "[WithContentType ContentTypeLive, md_WithLang ''fr'', WithContentType ContentTypeShorts]"
      and c = md_demo_client and ?env0.0 = "md_demo_env 200 md_demo_body" and key = "''key''" and copts = "[]"
      and pre = "[WithContentType ContentTypeLive]" and lang = "''fr''" and cts = "[ContentTypeShorts]"
      and env' = "yt_demo_env 200 yt_demo_body" and videoID = "''v1''" and opts' = "[yt_WithLang ''de'']"
      and c' = yt_demo_client and ?env1.0 = "yt_demo_env 200 yt_demo_body" and key' = "''key''"
      and copts' = "[]" and pre' = "[]" and lang' = "''de''"]
  have l1: "md_request_lang ([WithContentType ContentTypeLive] @ md_WithLang ''fr'' # map WithContentType [ContentTypeShorts])
       = ''fr''"
    using inst by simp
  have l2: "yt_request_lang ([] @ [yt_WithLang ''de'']) = ''de''"
    using inst by simp
  have u1: "\<exists>rl rest. calls (snd (GetChannelVideos (md_demo_env 200 md_demo_body) ''UC1''
                             [WithContentType ContentTypeLive, md_WithLang ''fr'', WithContentType ContentTypeShorts]
                             \<lparr>self = md_demo_client, calls = []\<rparr>))
        = map Call_opt [WithContentType ContentTypeLive, md_WithLang ''fr'', WithContentType ContentTypeShorts]
          @ Call_Take rl
          # Call_NewRequest ''GET''
              ''https://youtube-media-downloader.p.rapidapi.com/v2/channel/videos?channelId=UC1&lang=fr''
          # rest"
  proof -
    from inst h1 h3 obtain rl rest where
      "calls (snd (GetChannelVideos (md_demo_env 200 md_demo_body) ''UC1''
                     [WithContentType ContentTypeLive, md_WithLang ''fr'', WithContentType ContentTypeShorts]
                     \<lparr>self = md_demo_client, calls = []\<rparr>))
        = map Call_opt [WithContentType ContentTypeLive, md_WithLang ''fr'', WithContentType ContentTypeShorts]
          @ Call_Take rl
          # Call_NewRequest ''GET'' (''https://'' @ host (options md_demo_client) @ ''/v2/channel/videos?channelId=''
              @ ''UC1'' @ ''&lang='' @ md_request_lang
                  [WithContentType ContentTypeLive, md_WithLang ''fr'', WithContentType ContentTypeShorts])
          # rest"
      by blast
    moreover have "md_request_lang
        [WithContentType ContentTypeLive, md_WithLang ''fr'', WithContentType ContentTypeShorts] = ''fr''"
      using l1 by simp
    moreover have "host (options md_demo_client) = ''youtube-media-downloader.p.rapidapi.com''"
      by (simp add: md_demo_client_def)
    ultimately have "calls (snd (GetChannelVideos (md_demo_env 200 md_demo_body) ''UC1''
                     [WithContentType ContentTypeLive, md_WithLang ''fr'', WithContentType ContentTypeShorts]
                     \<lparr>self = md_demo_client, calls = []\<rparr>))
        = map Call_opt [WithContentType ContentTypeLive, md_WithLang ''fr'', WithContentType ContentTypeShorts]
          @ Call_Take rl
          # Call_NewRequest ''GET''
              ''https://youtube-media-downloader.p.rapidapi.com/v2/channel/videos?channelId=UC1&lang=fr''
          # rest"
      by simp
    then show ?thesis by blast
  qed
  have u2: "\<exists>rl rest. calls (snd (GetTranscript (yt_demo_env 200 yt_demo_body) ''v1'' [yt_WithLang ''de'']
                             \<lparr>self = yt_demo_client, calls = []\<rparr>))
        = map Call_opt [yt_WithLang ''de''] @ Call_Take rl
          # Call_NewRequest ''GET'' ''https://youtube-transcriptor.p.rapidapi.com/transcript?video_id=v1&lang=de''
          # rest"
  proof -
    from inst h2 h3 obtain rl rest where
      "calls (snd (GetTranscript (yt_demo_env 200 yt_demo_body) ''v1'' [yt_WithLang ''de'']
                     \<lparr>self = yt_demo_client, calls = []\<rparr>))
        = map Call_opt [yt_WithLang ''de''] @ Call_Take rl
          # Call_NewRequest ''GET'' (''https://'' @ host (options yt_demo_client) @ ''/transcript?video_id=''
              @ ''v1'' @ ''&lang='' @ yt_request_lang [yt_WithLang ''de''])
          # rest"
      by blast
    moreover have "yt_request_lang [yt_WithLang ''de''] = ''de''"
      using l2 by simp
    moreover have "host (options yt_demo_client) = ''youtube-transcriptor.p.rapidapi.com''"
      by (simp add: yt_demo_client_def)
    ultimately have "calls (snd (GetTranscript (yt_demo_env 200 yt_demo_body) ''v1'' [yt_WithLang ''de'']
                     \<lparr>self = yt_demo_client, calls = []\<rparr>))
        = map Call_opt [yt_WithLang ''de''] @ Call_Take rl
          # Call_NewRequest ''GET'' ''https://youtube-transcriptor.p.rapidapi.com/transcript?video_id=v1&lang=de''
          # rest"
      by simp
    then show ?thesis by blast
  qed
  show ?thesis using h1 h2 h3 l1 l2 u1 u2 by blast
qed

text \<open>
  C7. The calls a request makes, for every client and every answer of the collaborators.
  First the options, each in its turn. Then, if the client's limiter is \<^verbatim>\<open>nil\<close>, nothing
  more (the call panics, no request is built or sent). Otherwise \<^verbatim>\<open>Take\<close> on the client's
  limiter, then \<^verbatim>\<open>http.NewRequest\<close> with the URL; if that succeeds the two \<^verbatim>\<open>Header.Add\<close>
  and \<^verbatim>\<open>Do\<close> on the client's HTTP client with the request so made; if that succeeds
  \<^verbatim>\<open>io.ReadAll\<close>; if the body was read and the status is 200, \<^verbatim>\<open>json.Unmarshal\<close> of that
  body, and for any other status or an unreadable body no decoding; last \<^verbatim>\<open>Body.Close\<close>.
  So the calls are in the order of their stages, every \<^verbatim>\<open>Do\<close> comes after the \<^verbatim>\<open>Take\<close> on the
  client's limiter, and a body is decoded only after a response with status 200 has been
  received and read.
\<close>

theorem calls_in_order:
  "(let tr = calls (snd (GetChannelVideos env channelID opts \<lparr>self = c, calls = []\<rparr>));
        url = ''https://'' @ host (options c) @ ''/v2/channel/videos?channelId='' @ channelID
                @ ''&lang='' @ md_request_lang opts
    in (rateLimit (options c) = None \<or> rateLimit (options c) = Some Limiter_nil \<longrightarrow> tr = map Call_opt opts)
     \<and> (\<forall>rl. rateLimit (options c) = Some rl \<and> rl \<noteq> Limiter_nil \<longrightarrow>
          (case http_NewRequest env ''GET'' url of
             Inl e \<Rightarrow> tr = map Call_opt opts @ [Call_Take rl, Call_NewRequest ''GET'' url]
           | Inr req \<Rightarrow>
               (case httpClient (options c) of
                  None \<Rightarrow> tr = map Call_opt opts
                      @ [Call_Take rl, Call_NewRequest ''GET'' url,
                         Call_Header_Add ''X-RapidAPI-Key'' (apiKey c),
                         Call_Header_Add ''X-RapidAPI-Host'' (host (options c))]
                | Some hc \<Rightarrow>
                    (let rq = Header_Add env ''X-RapidAPI-Host'' (host (options c))
                                (Header_Add env ''X-RapidAPI-Key'' (apiKey c) req);
                         sent = map Call_opt opts
                           @ [Call_Take rl, Call_NewRequest ''GET'' url,
                              Call_Header_Add ''X-RapidAPI-Key'' (apiKey c),
                              Call_Header_Add ''X-RapidAPI-Host'' (host (options c)),
                              Call_Do hc rq]
                     in case client_Do env hc rq of
                          Inl e \<Rightarrow> tr = sent
                        | Inr res \<Rightarrow>
                            (case Body res of
                               Inl e \<Rightarrow> tr = sent @ [Call_ReadAll, Call_Close]
                             | Inr body \<Rightarrow>
                                 if StatusCode res = 200
                                 then tr = sent @ [Call_ReadAll, Call_Unmarshal body, Call_Close]
                                 else tr = sent @ [Call_ReadAll, Call_Close])))))
     \<and> sorted (map stage tr)
     \<and> (\<forall>i hc rq. i < length tr \<and> tr ! i = Call_Do hc rq \<longrightarrow>
          (\<exists>rl. rateLimit (options c) = Some rl \<and> rl \<noteq> Limiter_nil \<and> length opts < i
               \<and> tr ! length opts = Call_Take rl))
     \<and> (\<forall>body. Call_Unmarshal body \<in> set tr \<longrightarrow>
          (\<exists>hc rq res. Call_Do hc rq \<in> set tr \<and> client_Do env hc rq = Inr res
              \<and> StatusCode res = 200 \<and> Body res = Inr body)))
   \<and> (let tr = calls (snd (GetTranscript env' videoID opts' \<lparr>self = c', calls = []\<rparr>));
        url = ''https://'' @ host (options c') @ ''/transcript?video_id='' @ videoID
                @ ''&lang='' @ yt_request_lang opts'
    in (rateLimit (options c') = None \<or> rateLimit (options c') = Some Limiter_nil \<longrightarrow> tr = map Call_opt opts')
     \<and> (\<forall>rl. rateLimit (options c') = Some rl \<and> rl \<noteq> Limiter_nil \<longrightarrow>
          (case http_NewRequest env' ''GET'' url of
             Inl e \<Rightarrow> tr = map Call_opt opts' @ [Call_Take rl, Call_NewRequest ''GET'' url]
           | Inr req \<Rightarrow>
               (case httpClient (options c') of
                  None \<Rightarrow> tr = map Call_opt opts'
                      @ [Call_Take rl, Call_NewRequest ''GET'' url,
                         Call_Header_Add ''X-RapidAPI-Key'' (apiKey c'),
                         Call_Header_Add ''X-RapidAPI-Host'' (host (options c'))]
                | Some hc \<Rightarrow>
                    (let rq = Header_Add env' ''X-RapidAPI-Host'' (host (options c'))
                                (Header_Add env' ''X-RapidAPI-Key'' (apiKey c') req);
                         sent = map Call_opt opts'
                           @ [Call_Take rl, Call_NewRequest ''GET'' url,
                              Call_Header_Add ''X-RapidAPI-Key'' (apiKey c'),
                              Call_Header_Add ''X-RapidAPI-Host'' (host (options c')),
                              Call_Do hc rq]
                     in case client_Do env' hc rq of
                          Inl e \<Rightarrow> tr = sent
                        | Inr res \<Rightarrow>
                            (case Body res of
                               Inl e \<Rightarrow> tr = sent @ [Call_ReadAll, Call_Close]
                             | Inr body \<Rightarrow>
                                 if StatusCode res = 200
                                 then tr = sent @ [Call_ReadAll, Call_Unmarshal body, Call_Close]
                                 else tr = sent @ [Call_ReadAll, Call_Close])))))
     \<and> sorted (map stage tr)
     \<and> (\<forall>i hc rq. i < length tr \<and> tr ! i = Call_Do hc rq \<longrightarrow>
          (\<exists>rl. rateLimit (options c') = Some rl \<and> rl \<noteq> Limiter_nil \<and> length opts' < i
               \<and> tr ! length opts' = Call_Take rl))
     \<and> (\<forall>body. Call_Unmarshal body \<in> set tr \<longrightarrow>
          (\<exists>hc rq res. Call_Do hc rq \<in> set tr \<and> client_Do env' hc rq = Inr res
              \<and> StatusCode res = 200 \<and> Body res = Inr body)))"
proof -
  have md_panic: "rateLimit (options c) = None \<or> rateLimit (options c) = Some Limiter_nil \<longrightarrow>
      calls (snd (GetChannelVideos env channelID opts \<lparr>self = c, calls = []\<rparr>)) = map Call_opt opts"
    using md_calls_panic [of c env channelID opts "[]"] by auto
  have yt_panic: "rateLimit (options c') = None \<or> rateLimit (options c') = Some Limiter_nil \<longrightarrow>
      calls (snd (GetTranscript env' videoID opts' \<lparr>self = c', calls = []\<rparr>)) = map Call_opt opts'"
    using yt_calls_panic [of c' env' videoID opts' "[]"] by auto
  have md_dec: "\<forall>body. Call_Unmarshal body \<in> set (calls (snd (GetChannelVideos env channelID opts \<lparr>self = c, calls = []\<rparr>))) \<longrightarrow>
          (\<exists>hc rq res. Call_Do hc rq \<in> set (calls (snd (GetChannelVideos env channelID opts \<lparr>self = c, calls = []\<rparr>)))
              \<and> client_Do env hc rq = Inr res \<and> StatusCode res = 200 \<and> Body res = Inr body)"
    using md_Unmarshal_after_200 [of _ env channelID opts c] by blast
  have yt_dec: "\<forall>body. Call_Unmarshal body \<in> set (calls (snd (GetTranscript env' videoID opts' \<lparr>self = c', calls = []\<rparr>))) \<longrightarrow>
          (\<exists>hc rq res. Call_Do hc rq \<in> set (calls (snd (GetTranscript env' videoID opts' \<lparr>self = c', calls = []\<rparr>)))
              \<and> client_Do env' hc rq = Inr res \<and> StatusCode res = 200 \<and> Body res = Inr body)"
    using yt_Unmarshal_after_200 [of _ env' videoID opts' c'] by blast
  have md_do: "\<forall>i hc rq. i < length (calls (snd (GetChannelVideos env channelID opts \<lparr>self = c, calls = []\<rparr>)))
        \<and> calls (snd (GetChannelVideos env channelID opts \<lparr>self = c, calls = []\<rparr>)) ! i = Call_Do hc rq \<longrightarrow>
          (\<exists>rl. rateLimit (options c) = Some rl \<and> rl \<noteq> Limiter_nil \<and> length opts < i
               \<and> calls (snd (GetChannelVideos env channelID opts \<lparr>self = c, calls = []\<rparr>)) ! length opts = Call_Take rl)"
    using md_Do_needs_Take [of _ env channelID opts c] by blast
  have yt_do: "\<forall>i hc rq. i < length (calls (snd (GetTranscript env' videoID opts' \<lparr>self = c', calls = []\<rparr>)))
        \<and> calls (snd (GetTranscript env' videoID opts' \<lparr>self = c', calls = []\<rparr>)) ! i = Call_Do hc rq \<longrightarrow>
          (\<exists>rl. rateLimit (options c') = Some rl \<and> rl \<noteq> Limiter_nil \<and> length opts' < i
               \<and> calls (snd (GetTranscript env' videoID opts' \<lparr>self = c', calls = []\<rparr>)) ! length opts' = Call_Take rl)"
    using yt_Do_needs_Take [of _ env' videoID opts' c'] by blast
  show ?thesis
    unfolding Let_def
    apply (intro conjI allI impI)
    subgoal using md_panic by blast
    subgoal for rl by (elim conjE) (rule md_calls_exact [unfolded Let_def, OF _ _ refl refl], assumption+)
    subgoal by (rule md_sorted_calls)
    subgoal for i hc rq using md_do by blast
    subgoal for body using md_dec by blast
    subgoal using yt_panic by blast
    subgoal for rl by (elim conjE) (rule yt_calls_exact [unfolded Let_def, OF _ _ refl refl], assumption+)
    subgoal by (rule yt_sorted_calls)
    subgoal for i hc rq using yt_do by blast
    subgoal for body using yt_dec by blast
    done
qed

text \<open>
  A run of each call against a transport that answers 200: the theorem gives the whole
  sequence of calls.
\<close>

theorem calls_in_order_witness:
  "rateLimit (options md_demo_client) = Some (ratelimit_New 3 time_Second)
   \<and> ratelimit_New 3 time_Second \<noteq> Limiter_nil
   \<and> rateLimit (options yt_demo_client) = Some (ratelimit_New 10 time_Second)
   \<and> ratelimit_New 10 time_Second \<noteq> Limiter_nil
   \<and> calls (snd (GetChannelVideos (md_demo_env 200 md_demo_body) ''UC1'' [] \<lparr>self = md_demo_client, calls = []\<rparr>))
       = [Call_Take (ratelimit_New 3 time_Second),
          Call_NewRequest ''GET''
            ''https://youtube-media-downloader.p.rapidapi.com/v2/channel/videos?channelId=UC1&lang=en'',
          Call_Header_Add ''X-RapidAPI-Key'' ''key'',
          Call_Header_Add ''X-RapidAPI-Host'' ''youtube-media-downloader.p.rapidapi.com'',
          Call_Do DefaultClient md_demo_request, Call_ReadAll, Call_Unmarshal md_demo_body, Call_Close]
   \<and> calls (snd (GetTranscript (yt_demo_env 200 yt_demo_body) ''v1'' [] \<lparr>self = yt_demo_client, calls = []\<rparr>))
       = [Call_Take (ratelimit_New 10 time_Second),
          Call_NewRequest ''GET'' ''https://youtube-transcriptor.p.rapidapi.com/transcript?video_id=v1&lang=en'',
          Call_Header_Add ''X-RapidAPI-Key'' ''key'',
          Call_Header_Add ''X-RapidAPI-Host'' ''youtube-transcriptor.p.rapidapi.com'',
          Call_Do DefaultClient yt_demo_request, Call_ReadAll, Call_Unmarshal yt_demo_body, Call_Close]
   \<and> sorted (map stage (calls (snd (GetChannelVideos (md_demo_env 200 md_demo_body) ''UC1'' []
                                       \<lparr>self = md_demo_client, calls = []\<rparr>))))
   \<and> sorted (map stage (calls (snd (GetTranscript (yt_demo_env 200 yt_demo_body) ''v1'' []
                                       \<lparr>self = yt_demo_client, calls = []\<rparr>))))"
proof -
  have h1: "rateLimit (options md_demo_client) = Some (ratelimit_New 3 time_Second)"
    and h2: "ratelimit_New 3 time_Second \<noteq> Limiter_nil"
    and h3: "rateLimit (options yt_demo_client) = Some (ratelimit_New 10 time_Second)"
    and h4: "ratelimit_New 10 time_Second \<noteq> Limiter_nil"
    by (simp_all add: md_demo_client_def yt_demo_client_def)
  have l1: "md_request_lang [] = ''en''"
    by (rule md_request_lang_default) simp
  have l2: "yt_request_lang [] = ''en''"
    by (rule yt_request_lang_Nil)
  note inst = calls_in_order [of "md_demo_env 200 md_demo_body" "''UC1''" "[]" md_demo_client
      "yt_demo_env 200 yt_demo_body" "''v1''" "[]" yt_demo_client, unfolded Let_def l1 l2]
  note md = inst [THEN conjunct1, THEN conjunct2, THEN conjunct1,
      THEN spec [where x = "ratelimit_New 3 time_Second"], THEN mp, OF conjI [OF h1 h2]]
  note yt = inst [THEN conjunct2, THEN conjunct2, THEN conjunct1,
      THEN spec [where x = "ratelimit_New 10 time_Second"], THEN mp, OF conjI [OF h3 h4]]
  from md have t1: "calls (snd (GetChannelVideos (md_demo_env 200 md_demo_body) ''UC1'' []
                                  \<lparr>self = md_demo_client, calls = []\<rparr>))
       = [Call_Take (ratelimit_New 3 time_Second),
          Call_NewRequest ''GET''
            ''https://youtube-media-downloader.p.rapidapi.com/v2/channel/videos?channelId=UC1&lang=en'',
          Call_Header_Add ''X-RapidAPI-Key'' ''key'',
          Call_Header_Add ''X-RapidAPI-Host'' ''youtube-media-downloader.p.rapidapi.com'',
          Call_Do DefaultClient md_demo_request, Call_ReadAll, Call_Unmarshal md_demo_body, Call_Close]"
    by (simp add: demo_defs)
  from yt have t2: "calls (snd (GetTranscript (yt_demo_env 200 yt_demo_body) ''v1'' []
                                  \<lparr>self = yt_demo_client, calls = []\<rparr>))
       = [Call_Take (ratelimit_New 10 time_Second),
          Call_NewRequest ''GET'' ''https://youtube-transcriptor.p.rapidapi.com/transcript?video_id=v1&lang=en'',
          Call_Header_Add ''X-RapidAPI-Key'' ''key'',
          Call_Header_Add ''X-RapidAPI-Host'' ''youtube-transcriptor.p.rapidapi.com'',
          Call_Do DefaultClient yt_demo_request, Call_ReadAll, Call_Unmarshal yt_demo_body, Call_Close]"
    by (simp add: demo_defs)
  note s1 = inst [THEN conjunct1, THEN conjunct2, THEN conjunct2, THEN conjunct1]
  note s2 = inst [THEN conjunct2, THEN conjunct2, THEN conjunct2, THEN conjunct1]
  show ?thesis using h1 h2 h3 h4 t1 t2 s1 s2 by blast
qed

text \<open>
  C8. Whatever a call to \<^verbatim>\<open>GetChannelVideos\<close> or \<^verbatim>\<open>GetTranscript\<close> returns, and also when it
  panics, the client its receiver points to is afterwards what it was before: the API
  key, the host, the limiter and the HTTP client.
\<close>

theorem client_unchanged:
  "self (snd (GetChannelVideos env channelID opts w)) = self w
   \<and> apiKey (self (snd (GetChannelVideos env channelID opts w))) = apiKey (self w)
   \<and> options (self (snd (GetChannelVideos env channelID opts w))) = options (self w)
   \<and> self (snd (GetTranscript env' videoID opts' w')) = self w'
   \<and> apiKey (self (snd (GetTranscript env' videoID opts' w'))) = apiKey (self w')
   \<and> options (self (snd (GetTranscript env' videoID opts' w'))) = options (self w')"
  by (simp add: md_self_unchanged yt_self_unchanged)

text \<open>
  C9, as the code has it. Where \<^verbatim>\<open>http.NewRequest\<close> accepts the URL \<open>https://\<close>:
  \<^verbatim>\<open>New\<close> with \<^verbatim>\<open>WithHost("")\<close> among its options returns what it returns with that option
  left out, provided no host option comes before it; a call with \<^verbatim>\<open>WithLang("")\<close> among its
  options returns what it returns with that option left out, provided no language option
  comes before it. Whenever \<^verbatim>\<open>WithHost("")\<close> is the last host option, a client that is built
  has the default host of the service; whenever \<^verbatim>\<open>WithLang("")\<close> is the last language option,
  the language of the call is \<open>en\<close>, and with it alone the URL requested ends in \<open>lang=en\<close>.
\<close>

theorem empty_string_is_default:
  assumes "http_NewRequest env ''GET'' ''https://'' = Inr rq"
    and "http_NewRequest env' ''GET'' ''https://'' = Inr rq'"
  shows "((\<forall>h. WithHost h \<notin> set pre) \<longrightarrow>
            md_New env key (pre @ WithHost [] # post) = md_New env key (pre @ post)
          \<and> yt_New env' key (pre @ WithHost [] # post) = yt_New env' key (pre @ post))
     \<and> ((\<forall>l. md_WithLang l \<notin> set rpre) \<longrightarrow>
            fst (GetChannelVideos env channelID (rpre @ md_WithLang [] # rpost) w)
              = fst (GetChannelVideos env channelID (rpre @ rpost) w))
     \<and> fst (GetTranscript env' videoID (yt_WithLang [] # rpost') w')
         = fst (GetTranscript env' videoID rpost' w')
     \<and> ((\<forall>h. WithHost h \<notin> set post) \<and> list_all (validates env) (pre @ post) \<longrightarrow>
            (\<exists>c. md_New env key (pre @ WithHost [] # post) = (Some c, None)
                \<and> host (options c) = ''youtube-media-downloader.p.rapidapi.com''))
     \<and> ((\<forall>h. WithHost h \<notin> set post) \<and> list_all (validates env') (pre @ post) \<longrightarrow>
            (\<exists>c. yt_New env' key (pre @ WithHost [] # post) = (Some c, None)
                \<and> host (options c) = ''youtube-transcriptor.p.rapidapi.com''))
     \<and> ((\<forall>l. md_WithLang l \<notin> set rpost) \<longrightarrow> md_request_lang (rpre @ md_WithLang [] # rpost) = ''en'')
     \<and> yt_request_lang (rpre' @ [yt_WithLang []]) = ''en''
     \<and> (\<exists>c rl rest. md_New env key [WithHost []] = (Some c, None)
           \<and> host (options c) = ''youtube-media-downloader.p.rapidapi.com''
           \<and> calls (snd (GetChannelVideos env channelID [md_WithLang []] \<lparr>self = c, calls = []\<rparr>))
               = Call_opt (md_WithLang []) # Call_Take rl
                 # Call_NewRequest ''GET'' (''https://youtube-media-downloader.p.rapidapi.com/v2/channel/videos?channelId=''
                     @ channelID @ ''&lang=en'') # rest)
     \<and> (\<exists>c rl rest. yt_New env' key [WithHost []] = (Some c, None)
           \<and> host (options c) = ''youtube-transcriptor.p.rapidapi.com''
           \<and> calls (snd (GetTranscript env' videoID [yt_WithLang []] \<lparr>self = c, calls = []\<rparr>))
               = Call_opt (yt_WithLang []) # Call_Take rl
                 # Call_NewRequest ''GET'' (''https://youtube-transcriptor.p.rapidapi.com/transcript?video_id=''
                     @ videoID @ ''&lang=en'') # rest)"
proof -
  define c where "c = \<lparr>apiKey = key,
      options = \<lparr>host = ''youtube-media-downloader.p.rapidapi.com'',
                 rateLimit = Some (ratelimit_New 3 time_Second), httpClient = Some DefaultClient\<rparr>\<rparr>"
  define c' where "c' = \<lparr>apiKey = key,
      options = \<lparr>host = ''youtube-transcriptor.p.rapidapi.com'',
                 rateLimit = Some (ratelimit_New 10 time_Second), httpClient = Some DefaultClient\<rparr>\<rparr>"
  have skip: "(\<forall>h. WithHost h \<notin> set pre) \<longrightarrow>
            md_New env key (pre @ WithHost [] # post) = md_New env key (pre @ post)
          \<and> yt_New env' key (pre @ WithHost [] # post) = yt_New env' key (pre @ post)"
  proof
    assume no: "\<forall>h. WithHost h \<notin> set pre"
    have md: "md_New env key (pre @ WithHost [] # post) = md_New env key (pre @ post)"
      using range_opts_skip_WithHost_empty [OF assms(1), of pre "\<lparr>host = [], rateLimit = None, httpClient = None\<rparr>" post] no
      by (intro md_New_by_range_opts) simp_all
    have yt: "yt_New env' key (pre @ WithHost [] # post) = yt_New env' key (pre @ post)"
      using range_opts_skip_WithHost_empty [OF assms(2), of pre "\<lparr>host = [], rateLimit = None, httpClient = None\<rparr>" post] no
      by (intro md_New_by_range_opts) simp_all
    from md yt show "md_New env key (pre @ WithHost [] # post) = md_New env key (pre @ post)
          \<and> yt_New env' key (pre @ WithHost [] # post) = yt_New env' key (pre @ post)" ..
  qed
  have lang: "(\<forall>l. md_WithLang l \<notin> set rpre) \<longrightarrow>
            fst (GetChannelVideos env channelID (rpre @ md_WithLang [] # rpost) w)
              = fst (GetChannelVideos env channelID (rpre @ rpost) w)"
    using md_request_lang_skip_empty [of rpre rpost]
      md_result_by_lang [of "rpre @ md_WithLang [] # rpost" "rpre @ rpost" env channelID w]
    by blast
  have lang': "fst (GetTranscript env' videoID (yt_WithLang [] # rpost') w')
         = fst (GetTranscript env' videoID rpost' w')"
    by (rule yt_result_by_lang) (rule yt_request_lang_skip_empty)
  have last: "\<exists>c. md_New e key (pre @ WithHost [] # post) = (Some c, None)
                \<and> host (options c) = ''youtube-media-downloader.p.rapidapi.com''"
    and last': "\<exists>c. yt_New e key (pre @ WithHost [] # post) = (Some c, None)
                \<and> host (options c) = ''youtube-transcriptor.p.rapidapi.com''"
    if ok: "http_NewRequest e ''GET'' ''https://'' = Inr r" and no: "\<forall>h. WithHost h \<notin> set post"
      and v: "list_all (validates e) (pre @ post)" for e :: "'x env" and r
  proof -
    have "validates e (WithHost [])" using ok by (simp add: validates_def)
    with v have v': "list_all (validates e) (pre @ WithHost [] # post)" by simp
    have h: "host (configure e (pre @ WithHost [] # post)) = []"
      using ok no by (simp add: configure_def configure_keeps_host)
    show "\<exists>c. md_New e key (pre @ WithHost [] # post) = (Some c, None)
                \<and> host (options c) = ''youtube-media-downloader.p.rapidapi.com''"
      using md_New_valid [OF v', of key] h by auto
    show "\<exists>c. yt_New e key (pre @ WithHost [] # post) = (Some c, None)
                \<and> host (options c) = ''youtube-transcriptor.p.rapidapi.com''"
      using yt_New_valid [OF v', of key] h by auto
  qed
  have lastl: "(\<forall>l. md_WithLang l \<notin> set rpost) \<longrightarrow> md_request_lang (rpre @ md_WithLang [] # rpost) = ''en''"
    using md_request_lang_last [of rpost rpre "[]"] by auto
  have lastl': "yt_request_lang (rpre' @ [yt_WithLang []]) = ''en''"
    using yt_request_lang_last [of rpre' "[]"] by simp
  have n1: "md_New env key [WithHost []] = (Some c, None)"
    using assms(1) by (simp add: md_New_def c_def)
  have n1': "yt_New env' key [WithHost []] = (Some c', None)"
    using assms(2) by (simp add: yt_New_def c'_def)
  have en: "md_request_lang [md_WithLang []] = ''en''"
    using md_request_lang_last [of "[]" "[]" "[]"] by simp
  have en': "yt_request_lang [yt_WithLang []] = ''en''"
    using yt_request_lang_last [of "[]" "[]"] by simp
  have rl: "rateLimit (options c) = Some (ratelimit_New 3 time_Second)"
    "ratelimit_New 3 time_Second \<noteq> Limiter_nil"
    by (simp_all add: c_def)
  have rl': "rateLimit (options c') = Some (ratelimit_New 10 time_Second)"
    "ratelimit_New 10 time_Second \<noteq> Limiter_nil"
    by (simp_all add: c'_def)
  obtain rest where tr: "calls (snd (GetChannelVideos env channelID [md_WithLang []] \<lparr>self = c, calls = []\<rparr>))
      = Call_opt (md_WithLang []) # Call_Take (ratelimit_New 3 time_Second)
        # Call_NewRequest ''GET'' (''https://youtube-media-downloader.p.rapidapi.com/v2/channel/videos?channelId=''
            @ channelID @ ''&lang=en'') # rest"
    using md_calls_shape [OF rl, of env channelID "[md_WithLang []]"] en by (auto simp: c_def)
  obtain rest' where tr': "calls (snd (GetTranscript env' videoID [yt_WithLang []] \<lparr>self = c', calls = []\<rparr>))
      = Call_opt (yt_WithLang []) # Call_Take (ratelimit_New 10 time_Second)
        # Call_NewRequest ''GET'' (''https://youtube-transcriptor.p.rapidapi.com/transcript?video_id=''
            @ videoID @ ''&lang=en'') # rest'"
    using yt_calls_shape [OF rl', of env' videoID "[yt_WithLang []]"] en' by (auto simp: c'_def)
  have hc: "host (options c) = ''youtube-media-downloader.p.rapidapi.com''" by (simp add: c_def)
  have hc': "host (options c') = ''youtube-transcriptor.p.rapidapi.com''" by (simp add: c'_def)
  have md: "\<exists>c rl rest. md_New env key [WithHost []] = (Some c, None)
           \<and> host (options c) = ''youtube-media-downloader.p.rapidapi.com''
           \<and> calls (snd (GetChannelVideos env channelID [md_WithLang []] \<lparr>self = c, calls = []\<rparr>))
               = Call_opt (md_WithLang []) # Call_Take rl
                 # Call_NewRequest ''GET'' (''https://youtube-media-downloader.p.rapidapi.com/v2/channel/videos?channelId=''
                     @ channelID @ ''&lang=en'') # rest"
    using n1 hc tr by blast
  have yt: "\<exists>c rl rest. yt_New env' key [WithHost []] = (Some c, None)
           \<and> host (options c) = ''youtube-transcriptor.p.rapidapi.com''
           \<and> calls (snd (GetTranscript env' videoID [yt_WithLang []] \<lparr>self = c, calls = []\<rparr>))
               = Call_opt (yt_WithLang []) # Call_Take rl
                 # Call_NewRequest ''GET'' (''https://youtube-transcriptor.p.rapidapi.com/transcript?video_id=''
                     @ videoID @ ''&lang=en'') # rest"
    using n1' hc' tr' by blast
  show ?thesis
    using skip lang lang' last [OF assms(1)] last' [OF assms(2)] lastl lastl' md yt by blast
qed

theorem empty_string_is_default_witness:
  "http_NewRequest (md_demo_env 200 md_demo_body) ''GET'' ''https://''
     = Inr \<lparr>Method = ''GET'', URL = ''https://'', Header = []\<rparr>
   \<and> http_NewRequest (yt_demo_env 200 yt_demo_body) ''GET'' ''https://''
     = Inr \<lparr>Method = ''GET'', URL = ''https://'', Header = []\<rparr>
   \<and> (\<forall>h. WithHost h \<notin> set [WithRateLimit (Limiter_impl 1)])
   \<and> md_New (md_demo_env 200 md_demo_body) ''key'' [WithRateLimit (Limiter_impl 1), WithHost []]
       = md_New (md_demo_env 200 md_demo_body) ''key'' [WithRateLimit (Limiter_impl 1)]
   \<and> (\<forall>l. md_WithLang l \<notin> set [WithContentType ContentTypeShorts])
   \<and> fst (GetChannelVideos (md_demo_env 200 md_demo_body) ''UC1'' [WithContentType ContentTypeShorts, md_WithLang []]
            \<lparr>self = md_demo_client, calls = []\<rparr>)
       = fst (GetChannelVideos (md_demo_env 200 md_demo_body) ''UC1'' [WithContentType ContentTypeShorts]
            \<lparr>self = md_demo_client, calls = []\<rparr>)
   \<and> fst (GetTranscript (yt_demo_env 200 yt_demo_body) ''v1'' [yt_WithLang []]
            \<lparr>self = yt_demo_client, calls = []\<rparr>)
       = Return (Some hello_world, None)
   \<and> (\<forall>h. WithHost h \<notin> set [])
   \<and> list_all (validates (md_demo_env 200 md_demo_body)) ([WithRateLimit (Limiter_impl 1)] @ [])
   \<and> list_all (validates (yt_demo_env 200 yt_demo_body)) ([WithRateLimit (Limiter_impl 1)] @ [])
   \<and> (\<exists>c. md_New (md_demo_env 200 md_demo_body) ''key'' ([WithRateLimit (Limiter_impl 1)] @ WithHost [] # [])
              = (Some c, None)
          \<and> host (options c) = ''youtube-media-downloader.p.rapidapi.com'')
   \<and> (\<forall>l. md_WithLang l \<notin> set [])
   \<and> md_request_lang ([WithContentType ContentTypeShorts] @ md_WithLang [] # []) = ''en''"
proof -
  have h1: "http_NewRequest (md_demo_env 200 md_demo_body) ''GET'' ''https://''
     = Inr \<lparr>Method = ''GET'', URL = ''https://'', Header = []\<rparr>"
    by (simp add: md_demo_env_def demo_NewRequest_def)
  have h2: "http_NewRequest (yt_demo_env 200 yt_demo_body) ''GET'' ''https://''
     = Inr \<lparr>Method = ''GET'', URL = ''https://'', Header = []\<rparr>"
    by (simp add: yt_demo_env_def demo_NewRequest_def)
  have h3: "\<forall>h. WithHost h \<notin> set [WithRateLimit (Limiter_impl 1)]" by simp
  have h4: "\<forall>l. md_WithLang l \<notin> set [WithContentType ContentTypeShorts]" by simp
  have h5: "\<forall>h. WithHost h \<notin> set []" by simp
  have h6: "list_all (validates (md_demo_env 200 md_demo_body)) ([WithRateLimit (Limiter_impl 1)] @ [])"
    by (simp add: validates_def)
  have h7: "list_all (validates (yt_demo_env 200 yt_demo_body)) ([WithRateLimit (Limiter_impl 1)] @ [])"
    by (simp add: validates_def)
  have h8: "\<forall>l. md_WithLang l \<notin> set []" by simp
  note inst = empty_string_is_default [OF h1 h2, where pre = "[WithRateLimit (Limiter_impl 1)]"
      and post = "[]" and rpre = "[WithContentType ContentTypeShorts]" and rpost = "[]"
      and rpost' = "[]" and key = "''key''" and channelID = "''UC1''" and videoID = "''v1''"
      and w = "\<lparr>self = md_demo_client, calls = []\<rparr>" and w' = "\<lparr>self = yt_demo_client, calls = []\<rparr>"]
  from inst h3
  have n1: "md_New (md_demo_env 200 md_demo_body) ''key'' [WithRateLimit (Limiter_impl 1), WithHost []]
       = md_New (md_demo_env 200 md_demo_body) ''key'' [WithRateLimit (Limiter_impl 1)]"
    by simp
  from inst h4
  have r1: "fst (GetChannelVideos (md_demo_env 200 md_demo_body) ''UC1'' [WithContentType ContentTypeShorts, md_WithLang []]
            \<lparr>self = md_demo_client, calls = []\<rparr>)
       = fst (GetChannelVideos (md_demo_env 200 md_demo_body) ''UC1'' [WithContentType ContentTypeShorts]
            \<lparr>self = md_demo_client, calls = []\<rparr>)"
    by simp
  from inst
  have "fst (GetTranscript (yt_demo_env 200 yt_demo_body) ''v1'' [yt_WithLang []]
            \<lparr>self = yt_demo_client, calls = []\<rparr>)
       = fst (GetTranscript (yt_demo_env 200 yt_demo_body) ''v1'' []
            \<lparr>self = yt_demo_client, calls = []\<rparr>)"
    by blast
  then have r2: "fst (GetTranscript (yt_demo_env 200 yt_demo_body) ''v1'' [yt_WithLang []]
            \<lparr>self = yt_demo_client, calls = []\<rparr>) = Return (Some hello_world, None)"
    by (simp add: yt_demo_run_200)
  from inst h5 h6
  have d1: "\<exists>c. md_New (md_demo_env 200 md_demo_body) ''key'' ([WithRateLimit (Limiter_impl 1)] @ WithHost [] # [])
              = (Some c, None)
          \<and> host (options c) = ''youtube-media-downloader.p.rapidapi.com''"
    by blast
  from inst h8
  have d2: "md_request_lang ([WithContentType ContentTypeShorts] @ md_WithLang [] # []) = ''en''"
    by blast
  show ?thesis using h1 h2 h3 h4 h5 h6 h7 h8 n1 r1 r2 d1 d2 by blast
qed

text \<open>
  C9 as it is written fails on the code: after an earlier option of the same kind the empty
  string is not the same as leaving the option out. \<^verbatim>\<open>New\<close> with the hosts \<open>a\<close> and then the
  empty string gives the default host, with the host \<open>a\<close> alone it gives \<open>a\<close>; a call with
  the languages \<open>de\<close> and then the empty string requests \<open>lang=en\<close>, with \<open>de\<close> alone
  \<open>lang=de\<close>.
\<close>

theorem empty_string_after_value_counterexample:
  "md_New (md_demo_env 200 md_demo_body) ''key'' [WithHost ''a'', WithHost []]
     = (Some \<lparr>apiKey = ''key'',
              options = \<lparr>host = ''youtube-media-downloader.p.rapidapi.com'',
                         rateLimit = Some (ratelimit_New 3 time_Second),
                         httpClient = Some DefaultClient\<rparr>\<rparr>, None)
   \<and> md_New (md_demo_env 200 md_demo_body) ''key'' [WithHost ''a'']
     = (Some \<lparr>apiKey = ''key'',
              options = \<lparr>host = ''a'', rateLimit = Some (ratelimit_New 3 time_Second),
                         httpClient = Some DefaultClient\<rparr>\<rparr>, None)
   \<and> md_New (md_demo_env 200 md_demo_body) ''key'' [WithHost ''a'', WithHost []]
     \<noteq> md_New (md_demo_env 200 md_demo_body) ''key'' [WithHost ''a'']
   \<and> yt_New (yt_demo_env 200 yt_demo_body) ''key'' [WithHost ''a'', WithHost []]
     \<noteq> yt_New (yt_demo_env 200 yt_demo_body) ''key'' [WithHost ''a'']
   \<and> Call_NewRequest ''GET'' ''https://youtube-transcriptor.p.rapidapi.com/transcript?video_id=v1&lang=en''
       \<in> set (calls (snd (GetTranscript (yt_demo_env 200 yt_demo_body) ''v1'' [yt_WithLang ''de'', yt_WithLang []]
                            \<lparr>self = yt_demo_client, calls = []\<rparr>)))
   \<and> Call_NewRequest ''GET'' ''https://youtube-transcriptor.p.rapidapi.com/transcript?video_id=v1&lang=de''
       \<in> set (calls (snd (GetTranscript (yt_demo_env 200 yt_demo_body) ''v1'' [yt_WithLang ''de'']
                            \<lparr>self = yt_demo_client, calls = []\<rparr>)))
   \<and> calls (snd (GetTranscript (yt_demo_env 200 yt_demo_body) ''v1'' [yt_WithLang ''de'', yt_WithLang []]
                    \<lparr>self = yt_demo_client, calls = []\<rparr>))
     \<noteq> Call_opt (yt_WithLang ''de'') # Call_opt (yt_WithLang [])
         # tl (calls (snd (GetTranscript (yt_demo_env 200 yt_demo_body) ''v1'' [yt_WithLang ''de'']
                            \<lparr>self = yt_demo_client, calls = []\<rparr>)))
   \<and> Call_NewRequest ''GET''
         ''https://youtube-media-downloader.p.rapidapi.com/v2/channel/videos?channelId=UC1&lang=en''
       \<in> set (calls (snd (GetChannelVideos (md_demo_env 200 md_demo_body) ''UC1'' [md_WithLang ''de'', md_WithLang []]
                            \<lparr>self = md_demo_client, calls = []\<rparr>)))
   \<and> Call_NewRequest ''GET''
         ''https://youtube-media-downloader.p.rapidapi.com/v2/channel/videos?channelId=UC1&lang=de''
       \<in> set (calls (snd (GetChannelVideos (md_demo_env 200 md_demo_body) ''UC1'' [md_WithLang ''de'']
                            \<lparr>self = md_demo_client, calls = []\<rparr>)))"
  by (simp add: md_New_def yt_New_def run_defs demo_defs)




end
